theory Spec2Isabelle
  imports Main "HOL-Library.Sublist" "HOL-Library.Multiset"
begin

section \<open>Data model of list_not_found_ami_snapshot.py\<close>

text \<open>
  The script reads two paginated listings through an injected EC2 client, collects two
  Python sets of strings, subtracts them, and, when the difference is not empty, tags
  the remaining snapshots and writes them to a text file.

  Python values are modelled as follows.
  \<^item> A \<open>str\<close> is a \<open>string\<close>. The only substring test of the script has an ASCII
    needle, and on valid UTF-8 a byte-level substring test agrees with the test on code
    points.
  \<^item> A response dictionary whose keys may be missing is a record of \<open>option\<close> fields:
    \<open>None\<close> is the missing key. \<open>d.get(k, default)\<close> is \<open>dict_get\<close>, and \<open>d[k]\<close> on a
    missing key raises \<open>KeyError\<close>.
  \<^item> A \<open>set[str]\<close> is a \<open>string set\<close>. The order in which Python iterates over a set is
    not specified by the language; it is a component \<open>set_order\<close> of the runtime.
  \<^item> An exception is a value of \<open>py_exception\<close>; a function that may raise returns
    \<open>py_exception + 'a\<close>, with \<open>Inl\<close> for the raised exception.
  \<^item> Effects (the tag call, the file operations) are recorded in an explicit \<open>world\<close>.
  The calls of \<open>logger.debug\<close> only feed the logging handlers and are not modelled.
\<close>

datatype py_exception =
    KeyError string
  | ClientError string
  | OSError string
  | PyException string py_exception

text \<open>
  \<open>KeyError k\<close> is raised by \<open>d[k]\<close>; \<open>ClientError\<close> stands for whatever the injected
  client raises (a listing or tagging call that failed after its retries); \<open>OSError\<close>
  for what \<open>open\<close> and \<open>write\<close> raise; \<open>PyException msg e\<close> is
  \<open>raise Exception(msg) from e\<close>: the message and the cause.
\<close>

record snapshot =
  snap_Description :: "string option"
  snap_SnapshotId :: "string option"

record snapshots_page =
  Snapshots :: "snapshot list option"

record ebs =
  ebs_SnapshotId :: "string option"

record block_device_mapping =
  Ebs :: "ebs option"

record image =
  BlockDeviceMappings :: "block_device_mapping list option"

record images_page =
  Images :: "image list option"

text \<open>
  A paginator yields pages one after the other and either ends or raises: the pages it
  yielded and the exception that ended the iteration, if any.
\<close>

type_synonym 'p response_iterator = "'p list \<times> py_exception option"

text \<open>
  The client capability. Each listing takes the list of owner ids of the query.
  \<open>create_tags\<close> takes \<open>Resources\<close> and \<open>Tags\<close> and returns the exception it raises, if any.
\<close>

record ec2_client =
  describe_snapshots :: "string list \<Rightarrow> snapshots_page response_iterator"
  describe_images :: "string list \<Rightarrow> images_page response_iterator"
  create_tags :: "string list \<Rightarrow> (string \<times> string) list \<Rightarrow> py_exception option"

text \<open>
  What the script does not decide: the iteration order of a set, and the behaviour of
  the file system. The export file is a buffered text file: \<open>write\<close> hands text to a
  buffer, and the text reaches the file when the buffer is flushed, at the latest by
  the \<open>close\<close> on leaving the \<open>with\<close> block. So \<open>open\<close> may raise, the \<open>n\<close>-th \<open>write\<close>
  of an export (counted from 0) may raise, and \<open>close\<close> may raise; and when a \<open>write\<close> or
  the \<open>close\<close> raises, only the first \<open>persisted\<close> characters of the text handed to
  \<open>write\<close> are known to be in the file.
\<close>

record runtime =
  set_order :: "string set \<Rightarrow> string list"
  open_error :: "py_exception option"
  write_error :: "nat \<Rightarrow> py_exception option"
  close_error :: "py_exception option"
  persisted :: nat

datatype event =
    CreateTags "string list" "(string \<times> string) list"
  | FileOpen
  | FileWrite string
  | FileClose

text \<open>
  The observable world: the effects attempted so far (oldest first), the content of the
  file at \<open>EXPORT_FILE_NAME\<close> (\<open>None\<close> when the file does not exist) and the number of
  file handles the process holds open.
\<close>

record world =
  events :: "event list"
  export_file :: "string option"
  open_handles :: nat

section \<open>Constants and helpers\<close>

definition ACCOUNT_ID :: string where
  "ACCOUNT_ID = ''123456789012''"

text \<open>
  The message of the exception raised by \<open>main\<close>, a Japanese phrase that reads
  "main function error", as its UTF-8 bytes.
\<close>

definition main_error_msg :: string where
  "main_error_msg = map char_of
     [0xE3, 0x83, 0xA1, 0xE3, 0x82, 0xA4, 0xE3, 0x83, 0xB3, 0xE9, 0x96, 0xA2,
      0xE6, 0x95, 0xB0, 0xE3, 0x82, 0xA8, 0xE3, 0x83, 0xA9, 0xE3, 0x83, 0xBC :: nat]"

definition newline :: char where
  "newline = CHR 0x0A"

text \<open>\<open>d.get(key, default)\<close> on an optional field.\<close>

definition dict_get :: "'a option \<Rightarrow> 'a \<Rightarrow> 'a" where
  "dict_get field dflt = (case field of None \<Rightarrow> dflt | Some v \<Rightarrow> v)"

text \<open>Python's \<open>needle in haystack\<close> on strings.\<close>

fun str_contains :: "string \<Rightarrow> string \<Rightarrow> bool" where
  "str_contains needle [] = (needle = [])"
| "str_contains needle (c # cs) = (prefix needle (c # cs) \<or> str_contains needle cs)"

section \<open>The collectors\<close>

text \<open>The inner loop of \<open>list_snapshot\<close>, over the records of one page.\<close>

fun snapshots_loop :: "snapshot list \<Rightarrow> string set \<Rightarrow> string set" where
  "snapshots_loop [] snapshots_set = snapshots_set"
| "snapshots_loop (s # rest) snapshots_set =
     (let snapshot_description = dict_get (snap_Description s) ''''
      in if str_contains ''Created by CreateImage'' snapshot_description
         then (let snapshot_id = dict_get (snap_SnapshotId s) ''''
               in snapshots_loop rest (insert snapshot_id snapshots_set))
         else snapshots_loop rest snapshots_set)"

text \<open>The outer loop, over the pages; \<open>page["Snapshots"]\<close> raises on a missing key.\<close>

fun snapshot_pages_loop :: "snapshots_page list \<Rightarrow> string set \<Rightarrow> py_exception + string set" where
  "snapshot_pages_loop [] snapshots_set = Inr snapshots_set"
| "snapshot_pages_loop (page # rest) snapshots_set =
     (case Snapshots page of
        None \<Rightarrow> Inl (KeyError ''Snapshots'')
      | Some records \<Rightarrow> snapshot_pages_loop rest (snapshots_loop records snapshots_set))"

definition list_snapshot :: "ec2_client \<Rightarrow> py_exception + string set" where
  "list_snapshot ec2 =
     (case describe_snapshots ec2 [ACCOUNT_ID] of
        (pages, raised) \<Rightarrow>
          (case snapshot_pages_loop pages {} of
             Inl e \<Rightarrow> Inl e
           | Inr snapshots_set \<Rightarrow>
               (case raised of Some e \<Rightarrow> Inl e | None \<Rightarrow> Inr snapshots_set)))"

text \<open>The three nested loops of \<open>list_ami\<close>: mappings of an image, images of a page, pages.\<close>

fun blocks_loop :: "block_device_mapping list \<Rightarrow> string set \<Rightarrow> string set" where
  "blocks_loop [] amis_set = amis_set"
| "blocks_loop (block # rest) amis_set =
     (let ebs_dict = dict_get (Ebs block) \<lparr>ebs_SnapshotId = None\<rparr>;
          snapshot_id = dict_get (ebs_SnapshotId ebs_dict) ''''
      in blocks_loop rest (insert snapshot_id amis_set))"

fun images_loop :: "image list \<Rightarrow> string set \<Rightarrow> string set" where
  "images_loop [] amis_set = amis_set"
| "images_loop (ami # rest) amis_set =
     images_loop rest (blocks_loop (dict_get (BlockDeviceMappings ami) []) amis_set)"

fun image_pages_loop :: "images_page list \<Rightarrow> string set \<Rightarrow> py_exception + string set" where
  "image_pages_loop [] amis_set = Inr amis_set"
| "image_pages_loop (page # rest) amis_set =
     (case Images page of
        None \<Rightarrow> Inl (KeyError ''Images'')
      | Some amis \<Rightarrow> image_pages_loop rest (images_loop amis amis_set))"

definition list_ami :: "ec2_client \<Rightarrow> py_exception + string set" where
  "list_ami ec2 =
     (case describe_images ec2 [ACCOUNT_ID] of
        (pages, raised) \<Rightarrow>
          (case image_pages_loop pages {} of
             Inl e \<Rightarrow> Inl e
           | Inr amis_set \<Rightarrow>
               (case raised of Some e \<Rightarrow> Inl e | None \<Rightarrow> Inr amis_set)))"

section \<open>Tagging and export\<close>

definition grant_tag :: "ec2_client \<Rightarrow> string list \<Rightarrow> world \<Rightarrow> (py_exception + unit) \<times> world" where
  "grant_tag ec2 snapshot_ids w =
     (let tags = [(''NotAttachedAMI'', ''True'')];
          w' = w\<lparr>events := events w @ [CreateTags snapshot_ids tags]\<rparr>
      in case create_tags ec2 snapshot_ids tags of
           Some e \<Rightarrow> (Inl e, w')
         | None \<Rightarrow> (Inr (), w'))"

text \<open>
  The body of the \<open>with\<close> block of \<open>export_text\<close>: one \<open>write\<close> per id, in iteration
  order. \<open>written\<close> is the text handed to \<open>write\<close> so far, the line of a raising \<open>write\<close>
  included, since part of it may already have gone through.
\<close>

fun write_loop ::
  "runtime \<Rightarrow> string list \<Rightarrow> nat \<Rightarrow> string \<Rightarrow> world \<Rightarrow> (py_exception + unit) \<times> string \<times> world" where
  "write_loop rt [] n written w = (Inr (), written, w)"
| "write_loop rt (snapshot_id # rest) n written w =
     (let line = snapshot_id @ [newline];
          w' = w\<lparr>events := events w @ [FileWrite line]\<rparr>
      in case write_error rt n of
           Some e \<Rightarrow> (Inl e, written @ line, w')
         | None \<Rightarrow> write_loop rt rest (Suc n) (written @ line) w')"

text \<open>
  \<open>open("w")\<close> truncates the file when it succeeds and leaves it alone when it raises.
  Leaving the \<open>with\<close> block closes the file, whether the body returned or raised; the
  handle is released even when the \<open>close\<close> raises, and an exception of the \<open>close\<close>
  replaces the one of the body. When nothing raised, all the text is in the file;
  otherwise the file holds its first \<open>persisted\<close> characters.
\<close>

definition export_text :: "runtime \<Rightarrow> string set \<Rightarrow> world \<Rightarrow> (py_exception + unit) \<times> world" where
  "export_text rt unassociated_snapshots w =
     (let w0 = w\<lparr>events := events w @ [FileOpen]\<rparr>
      in case open_error rt of
           Some e \<Rightarrow> (Inl e, w0)
         | None \<Rightarrow>
             (let w1 = w0\<lparr>export_file := Some [], open_handles := Suc (open_handles w0)\<rparr>
              in case write_loop rt (set_order rt unassociated_snapshots) 0 [] w1 of
                   (r, written, w2) \<Rightarrow>
                     (let raised = (case close_error rt of Some e \<Rightarrow> Inl e | None \<Rightarrow> r);
                          content = (case raised of
                                       Inl e \<Rightarrow> take (persisted rt) written
                                     | Inr u \<Rightarrow> written)
                      in (raised,
                          w2\<lparr>events := events w2 @ [FileClose],
                             export_file := Some content,
                             open_handles := open_handles w2 - 1\<rparr>))))"

section \<open>The orchestrator\<close>

text \<open>
  The \<open>try\<close> block of \<open>main\<close>, and \<open>main\<close> itself: every exception of the block is
  replaced by \<open>Exception(msg) from e\<close>; the \<open>return\<close> is reached only when the block
  raised nothing.
\<close>

definition main_try :: "runtime \<Rightarrow> ec2_client \<Rightarrow> world \<Rightarrow> (py_exception + string set) \<times> world" where
  "main_try rt ec2 w =
     (case list_snapshot ec2 of
        Inl e \<Rightarrow> (Inl e, w)
      | Inr snapshots_set \<Rightarrow>
          (case list_ami ec2 of
             Inl e \<Rightarrow> (Inl e, w)
           | Inr amis_set \<Rightarrow>
               (let unassociated_snapshots = snapshots_set - amis_set
                in if unassociated_snapshots \<noteq> {}
                   then (case grant_tag ec2 (set_order rt unassociated_snapshots) w of
                           (Inl e, w1) \<Rightarrow> (Inl e, w1)
                         | (Inr _, w1) \<Rightarrow>
                             (case export_text rt unassociated_snapshots w1 of
                                (Inl e, w2) \<Rightarrow> (Inl e, w2)
                              | (Inr _, w2) \<Rightarrow> (Inr unassociated_snapshots, w2)))
                   else (Inr unassociated_snapshots, w))))"

definition main :: "runtime \<Rightarrow> ec2_client \<Rightarrow> world \<Rightarrow> (py_exception + string set) \<times> world" where
  "main rt ec2 w =
     (case main_try rt ec2 w of
        (Inl e, w') \<Rightarrow> (Inl (PyException main_error_msg e), w')
      | (Inr unassociated_snapshots, w') \<Rightarrow> (Inr unassociated_snapshots, w'))"

section \<open>Reading the export back\<close>



section \<open>Example inputs\<close>

text \<open>
  The scenario of the repository's test: three images are created from one instance,
  each with one snapshot, and the second image is deregistered. The snapshots come on
  two pages; \<open>tag_result\<close> is what the tagging call raises, if anything.
\<close>

definition ex_snapshot :: "string \<Rightarrow> snapshot" where
  "ex_snapshot sid =
     \<lparr>snap_Description = Some ''Created by CreateImage(i-0123...) for ami-0123... from vol-0123...'',
      snap_SnapshotId = Some sid\<rparr>"

definition ex_image :: "string \<Rightarrow> image" where
  "ex_image sid = \<lparr>BlockDeviceMappings = Some [\<lparr>Ebs = Some \<lparr>ebs_SnapshotId = Some sid\<rparr>\<rparr>]\<rparr>"

definition ex_client :: "py_exception option \<Rightarrow> ec2_client" where
  "ex_client tag_result =
     \<lparr>describe_snapshots = (\<lambda>owners.
        ([\<lparr>Snapshots = Some [ex_snapshot ''snap-1'', ex_snapshot ''snap-2'']\<rparr>,
          \<lparr>Snapshots = Some [ex_snapshot ''snap-3'']\<rparr>], None)),
      describe_images = (\<lambda>owners.
        ([\<lparr>Images = Some [ex_image ''snap-1'', ex_image ''snap-3'']\<rparr>], None)),
      create_tags = (\<lambda>resources tags. tag_result)\<rparr>"

text \<open>A runtime in which no file operation fails, and a world with an older export.\<close>

definition ex_runtime :: runtime where
  "ex_runtime =
     \<lparr>set_order = (\<lambda>S. if S = {''snap-2''} then [''snap-2''] else []),
      open_error = None, write_error = (\<lambda>n. None), close_error = None, persisted = 0\<rparr>"

definition ex_world :: world where
  "ex_world = \<lparr>events = [], export_file = Some ''snap-0'', open_handles = 0\<rparr>"

text \<open>
  The second scenario: no image exists, and the only snapshot was made by hand.
\<close>

definition ex_client_manual :: ec2_client where
  "ex_client_manual =
     \<lparr>describe_snapshots = (\<lambda>owners.
        ([\<lparr>Snapshots = Some [\<lparr>snap_Description = Some ''manual backup'',
                                snap_SnapshotId = Some ''snap-9''\<rparr>]\<rparr>], None)),
      describe_images = (\<lambda>owners. ([], None)),
      create_tags = (\<lambda>resources tags. None)\<rparr>"

text \<open>
  Two clients with the same throttling error, one on the snapshot listing and one on
  the image listing.
\<close>

definition ex_client_snapshots_fail :: ec2_client where
  "ex_client_snapshots_fail =
     (ex_client None)\<lparr>describe_snapshots := (\<lambda>owners. ([], Some (ClientError ''Throttling'')))\<rparr>"

definition ex_client_images_fail :: ec2_client where
  "ex_client_images_fail =
     (ex_client None)\<lparr>describe_images := (\<lambda>owners. ([], Some (ClientError ''Throttling'')))\<rparr>"

text \<open>
  An image with two mappings, one without an \<open>Ebs\<close> entry and one backed by \<open>snap-1\<close>,
  next to an image-derived snapshot record without a \<open>SnapshotId\<close> and an orphan
  \<open>snap-2\<close>.
\<close>

definition ex_client_no_ebs :: ec2_client where
  "ex_client_no_ebs =
     \<lparr>describe_snapshots = (\<lambda>owners.
        ([\<lparr>Snapshots = Some [\<lparr>snap_Description = Some ''Created by CreateImage'',
                                snap_SnapshotId = None\<rparr>,
                              ex_snapshot ''snap-1'', ex_snapshot ''snap-2'']\<rparr>], None)),
      describe_images = (\<lambda>owners.
        ([\<lparr>Images = Some [\<lparr>BlockDeviceMappings = Some
            [\<lparr>Ebs = None\<rparr>, \<lparr>Ebs = Some \<lparr>ebs_SnapshotId = Some ''snap-1''\<rparr>\<rparr>]\<rparr>]\<rparr>], None)),
      create_tags = (\<lambda>resources tags. None)\<rparr>"





section \<open>What the loops compute\<close>

text \<open>
  Each loop adds to its accumulator a set that depends only on the set of elements it
  runs over; a page without its key raises the same \<open>KeyError\<close> wherever it stands.
\<close>

lemma str_contains_sublist: "str_contains needle hay = sublist needle hay"
  by (induction hay) (simp_all add: sublist_Cons_right)

lemma snapshots_loop_eq:
  "snapshots_loop records acc =
     acc \<union> (\<lambda>s. dict_get (snap_SnapshotId s) '''') `
       {s \<in> set records. str_contains ''Created by CreateImage'' (dict_get (snap_Description s) '''')}"
  by (induction records arbitrary: acc) (auto simp: Let_def)

lemma snapshot_pages_loop_eq:
  "snapshot_pages_loop pages acc =
     (if None \<in> Snapshots ` set pages then Inl (KeyError ''Snapshots'')
      else Inr (acc \<union> (\<Union>p \<in> set pages. snapshots_loop (dict_get (Snapshots p) []) {})))"
proof (induction pages arbitrary: acc)
  case Nil
  show ?case by simp
next
  case (Cons page rest)
  show ?case
  proof (cases "Snapshots page")
    case None
    then show ?thesis by (simp add: image_iff) 
  next
    case (Some records)
    have "snapshots_loop records acc = acc \<union> snapshots_loop records {}"
      by (simp add: snapshots_loop_eq [of records acc] snapshots_loop_eq [of records "{}"])
    with Some Cons.IH [of "snapshots_loop records acc"] show ?thesis
      by (auto simp: dict_get_def)
  qed
qed

lemma blocks_loop_eq:
  "blocks_loop blocks acc =
     acc \<union> (\<lambda>b. dict_get (ebs_SnapshotId (dict_get (Ebs b) \<lparr>ebs_SnapshotId = None\<rparr>)) '''') ` set blocks"
  by (induction blocks arbitrary: acc) (auto simp: Let_def)

lemma images_loop_eq:
  "images_loop amis acc =
     acc \<union> (\<Union>a \<in> set amis. blocks_loop (dict_get (BlockDeviceMappings a) []) {})"
proof (induction amis arbitrary: acc)
  case Nil
  show ?case by simp
next
  case (Cons ami rest)
  have "blocks_loop bs acc = acc \<union> blocks_loop bs {}" for bs
    by (simp add: blocks_loop_eq [of bs acc] blocks_loop_eq [of bs "{}"])
  with Cons.IH [of "blocks_loop (dict_get (BlockDeviceMappings ami) []) acc"] show ?case
    by auto
qed

lemma image_pages_loop_eq:
  "image_pages_loop pages acc =
     (if None \<in> Images ` set pages then Inl (KeyError ''Images'')
      else Inr (acc \<union> (\<Union>p \<in> set pages. images_loop (dict_get (Images p) []) {})))"
proof (induction pages arbitrary: acc)
  case Nil
  show ?case by simp
next
  case (Cons page rest)
  show ?case
  proof (cases "Images page")
    case None
    then show ?thesis by (simp add: image_iff)
  next
    case (Some amis)
    have "images_loop amis acc = acc \<union> images_loop amis {}"
      by (simp add: images_loop_eq [of amis acc] images_loop_eq [of amis "{}"])
    with Some Cons.IH [of "images_loop amis acc"] show ?thesis
      by (auto simp: dict_get_def)
  qed
qed

section \<open>The example scenario, evaluated\<close>

lemma ex_list_snapshot: "list_snapshot (ex_client t) = Inr {''snap-1'', ''snap-2'', ''snap-3''}"
  by (auto simp: list_snapshot_def ex_client_def ex_snapshot_def dict_get_def)

lemma ex_list_ami: "list_ami (ex_client t) = Inr {''snap-1'', ''snap-3''}"
  by (auto simp: list_ami_def ex_client_def ex_image_def dict_get_def)

lemma ex_diff: "{''snap-1'', ''snap-2'', ''snap-3''} - {''snap-1'', ''snap-3''} = {''snap-2''}"
  by auto

lemma ex_main_ok:
  "main ex_runtime (ex_client None) ex_world =
     (Inr {''snap-2''},
      \<lparr>events = [CreateTags [''snap-2''] [(''NotAttachedAMI'', ''True'')], FileOpen,
                 FileWrite (''snap-2'' @ [newline]), FileClose],
       export_file = Some (''snap-2'' @ [newline]), open_handles = 0\<rparr>)"
  apply (simp only: main_def main_try_def ex_list_snapshot ex_list_ami sum.case Let_def ex_diff)
  apply (simp add: grant_tag_def export_text_def ex_runtime_def ex_client_def ex_world_def dict_get_def Let_def)
  done

lemma ex_main_tag_fail:
  "main ex_runtime (ex_client (Some (ClientError ''denied''))) ex_world =
     (Inl (PyException main_error_msg (ClientError ''denied'')),
      \<lparr>events = [CreateTags [''snap-2''] [(''NotAttachedAMI'', ''True'')]],
       export_file = Some ''snap-0'', open_handles = 0\<rparr>)"
  apply (simp only: main_def main_try_def ex_list_snapshot ex_list_ami sum.case Let_def ex_diff)
  apply (simp add: grant_tag_def export_text_def ex_runtime_def ex_client_def ex_world_def dict_get_def Let_def)
  done

section \<open>The orchestrator, case by case\<close>

lemma main_snapshot_error:
  "list_snapshot ec2 = Inl e \<Longrightarrow> main rt ec2 w = (Inl (PyException main_error_msg e), w)"
  by (simp add: main_def main_try_def)

lemma main_ami_error:
  "list_snapshot ec2 = Inr A \<Longrightarrow> list_ami ec2 = Inl e \<Longrightarrow>
     main rt ec2 w = (Inl (PyException main_error_msg e), w)"
  by (simp add: main_def main_try_def)

lemma main_no_orphan:
  "list_snapshot ec2 = Inr A \<Longrightarrow> list_ami ec2 = Inr B \<Longrightarrow> A - B = {} \<Longrightarrow>
     main rt ec2 w = (Inr {}, w)"
  by (simp add: main_def main_try_def)

lemma main_tag_error:
  "list_snapshot ec2 = Inr A \<Longrightarrow> list_ami ec2 = Inr B \<Longrightarrow> A - B \<noteq> {} \<Longrightarrow>
   create_tags ec2 (set_order rt (A - B)) [(''NotAttachedAMI'', ''True'')] = Some e \<Longrightarrow>
     main rt ec2 w =
       (Inl (PyException main_error_msg e),
        w\<lparr>events := events w @
             [CreateTags (set_order rt (A - B)) [(''NotAttachedAMI'', ''True'')]]\<rparr>)"
  by (simp add: main_def main_try_def grant_tag_def)

lemma main_tag_ok:
  "list_snapshot ec2 = Inr A \<Longrightarrow> list_ami ec2 = Inr B \<Longrightarrow> A - B \<noteq> {} \<Longrightarrow>
   create_tags ec2 (set_order rt (A - B)) [(''NotAttachedAMI'', ''True'')] = None \<Longrightarrow>
     main rt ec2 w =
       (case export_text rt (A - B)
               (w\<lparr>events := events w @
                    [CreateTags (set_order rt (A - B)) [(''NotAttachedAMI'', ''True'')]]\<rparr>) of
          (Inl e, w2) \<Rightarrow> (Inl (PyException main_error_msg e), w2)
        | (Inr u, w2) \<Rightarrow> (Inr (A - B), w2))"
  by (simp add: main_def main_try_def grant_tag_def split: prod.splits sum.splits)

section \<open>The write loop\<close>


lemma write_loop_world:
  "write_loop rt ids n written w = (r, written', w') \<Longrightarrow>
     open_handles w' = open_handles w \<and> export_file w' = export_file w \<and>
     (\<exists>k \<le> length ids.
        events w' = events w @ map (\<lambda>i. FileWrite (i @ [newline])) (take k ids)
        \<and> written' = written @ concat (map (\<lambda>i. i @ [newline]) (take k ids))
        \<and> (r = Inr () \<longrightarrow> k = length ids))"
proof (induction ids arbitrary: n written w)
  case Nil
  then show ?case by simp
next
  case (Cons i ids)
  show ?case
  proof (cases "write_error rt n")
    case (Some e)
    with Cons.prems have "w' = w\<lparr>events := events w @ [FileWrite (i @ [newline])]\<rparr>"
      and "written' = written @ i @ [newline]" and "r = Inl e"
      by (simp_all add: Let_def)
    then have "events w' = events w @ map (\<lambda>i. FileWrite (i @ [newline])) (take 1 (i # ids))"
      and "written' = written @ concat (map (\<lambda>i. i @ [newline]) (take 1 (i # ids)))"
      and "open_handles w' = open_handles w" and "export_file w' = export_file w"
      and "r \<noteq> Inr ()"
      by simp_all
    moreover have "1 \<le> length (i # ids)" by simp
    ultimately show ?thesis by blast
  next
    case None
    let ?w1 = "w\<lparr>events := events w @ [FileWrite (i @ [newline])]\<rparr>"
    from None Cons.prems
    have "write_loop rt ids (Suc n) (written @ i @ [newline]) ?w1 = (r, written', w')"
      by (simp add: Let_def)
    from Cons.IH [OF this] obtain k where k: "k \<le> length ids"
      "events w' = events ?w1 @ map (\<lambda>i. FileWrite (i @ [newline])) (take k ids)"
      "written' = (written @ i @ [newline]) @ concat (map (\<lambda>i. i @ [newline]) (take k ids))"
      "r = Inr () \<longrightarrow> k = length ids"
      "open_handles w' = open_handles w" "export_file w' = export_file w"
      by auto
    then have "events w' = events w @ map (\<lambda>i. FileWrite (i @ [newline])) (take (Suc k) (i # ids))"
      and "written' = written @ concat (map (\<lambda>i. i @ [newline]) (take (Suc k) (i # ids)))"
      and "r = Inr () \<longrightarrow> Suc k = length (i # ids)"
      and "Suc k \<le> length (i # ids)"
      by simp_all
    with k(5,6) show ?thesis by blast
  qed
qed

section \<open>The export, case by case\<close>

lemma export_text_open_error:
  "open_error rt = Some e \<Longrightarrow>
     export_text rt S w = (Inl e, w\<lparr>events := events w @ [FileOpen]\<rparr>)"
  by (simp add: export_text_def)


lemma export_text_world:
  assumes "export_text rt S w = (r, w')"
  shows "open_handles w' = open_handles w \<and>
     (\<exists>k \<le> length (set_order rt S). \<exists>closing.
        events w' = events w @ FileOpen #
          map (\<lambda>i. FileWrite (i @ [newline])) (take k (set_order rt S)) @ closing
        \<and> (closing = [] \<or> closing = [FileClose]))"
proof (cases "open_error rt")
  case (Some e)
  with assms have "w' = w\<lparr>events := events w @ [FileOpen]\<rparr>"
    by (simp add: export_text_def)
  then have "open_handles w' = open_handles w"
    and "events w' = events w @ FileOpen #
          map (\<lambda>i. FileWrite (i @ [newline])) (take 0 (set_order rt S)) @ []"
    by simp_all
  then show ?thesis by blast
next
  case None
  let ?w1 = "w\<lparr>events := events w @ [FileOpen], export_file := Some [],
               open_handles := Suc (open_handles w)\<rparr>"
  obtain r2 written w2 where loop: "write_loop rt (set_order rt S) 0 [] ?w1 = (r2, written, w2)"
    by (cases "write_loop rt (set_order rt S) 0 [] ?w1")
  with None assms have "events w' = events w2 @ [FileClose]"
    and "open_handles w' = open_handles w2 - 1"
    by (auto simp: export_text_def Let_def)
  moreover from write_loop_world [OF loop] obtain k where "k \<le> length (set_order rt S)"
    "events w2 = events ?w1 @ map (\<lambda>i. FileWrite (i @ [newline])) (take k (set_order rt S))"
    "open_handles w2 = open_handles ?w1"
    by auto
  ultimately have "open_handles w' = open_handles w"
    and "events w' = events w @ FileOpen #
          map (\<lambda>i. FileWrite (i @ [newline])) (take k (set_order rt S)) @ [FileClose]"
    and "k \<le> length (set_order rt S)"
    by simp_all
  then show ?thesis by blast
qed

section \<open>What main returns\<close>

lemma main_returned_value:
  assumes "list_snapshot ec2 = Inr A" and "list_ami ec2 = Inr B"
    and ret: "fst (main rt ec2 w) = Inr R"
  shows "R = A - B"
proof (cases "A - B = {}")
  case True
  from main_no_orphan [OF assms(1,2) True] ret show ?thesis
    using True by simp
next
  case False
  show ?thesis
  proof (cases "create_tags ec2 (set_order rt (A - B)) [(''NotAttachedAMI'', ''True'')]")
    case (Some e)
    from main_tag_error [OF assms(1,2) False Some] ret show ?thesis by simp
  next
    case None
    obtain r w2 where ex: "export_text rt (A - B)
        (w\<lparr>events := events w @
           [CreateTags (set_order rt (A - B)) [(''NotAttachedAMI'', ''True'')]]\<rparr>) = (r, w2)"
      by (cases "export_text rt (A - B)
        (w\<lparr>events := events w @
           [CreateTags (set_order rt (A - B)) [(''NotAttachedAMI'', ''True'')]]\<rparr>)")
    show ?thesis
    proof (cases r)
      case (Inl e)
      with main_tag_ok [OF assms(1,2) False None, of w] ex ret show ?thesis by simp
    next
      case (Inr u)
      with main_tag_ok [OF assms(1,2) False None, of w] ex ret show ?thesis by simp
    qed
  qed
qed

section \<open>Errors and effects of main\<close>

lemma main_tag_ok_world:
  assumes "list_snapshot ec2 = Inr A" and "list_ami ec2 = Inr B" and "A - B \<noteq> {}"
    and "create_tags ec2 (set_order rt (A - B)) [(''NotAttachedAMI'', ''True'')] = None"
  shows "snd (main rt ec2 w) =
     snd (export_text rt (A - B)
            (w\<lparr>events := events w @
                 [CreateTags (set_order rt (A - B)) [(''NotAttachedAMI'', ''True'')]]\<rparr>))"
proof -
  let ?w1 = "w\<lparr>events := events w @
                 [CreateTags (set_order rt (A - B)) [(''NotAttachedAMI'', ''True'')]]\<rparr>"
  obtain r w2 where ex: "export_text rt (A - B) ?w1 = (r, w2)"
    by (cases "export_text rt (A - B) ?w1")
  show ?thesis
  proof (cases r)
    case (Inl e)
    with main_tag_ok [OF assms, of w] ex show ?thesis by simp
  next
    case (Inr u)
    with main_tag_ok [OF assms, of w] ex show ?thesis by simp
  qed
qed

lemma main_tag_ok_error:
  assumes "list_snapshot ec2 = Inr A" and "list_ami ec2 = Inr B" and "A - B \<noteq> {}"
    and "create_tags ec2 (set_order rt (A - B)) [(''NotAttachedAMI'', ''True'')] = None"
    and "fst (export_text rt (A - B)
            (w\<lparr>events := events w @
                 [CreateTags (set_order rt (A - B)) [(''NotAttachedAMI'', ''True'')]]\<rparr>)) = Inl e"
  shows "fst (main rt ec2 w) = Inl (PyException main_error_msg e)"
proof -
  let ?w1 = "w\<lparr>events := events w @
                 [CreateTags (set_order rt (A - B)) [(''NotAttachedAMI'', ''True'')]]\<rparr>"
  obtain r w2 where ex: "export_text rt (A - B) ?w1 = (r, w2)"
    by (cases "export_text rt (A - B) ?w1")
  with assms(5) have "r = Inl e" by simp
  with main_tag_ok [OF assms(1-4), of w] ex show ?thesis by simp
qed

lemma main_raised_is_wrapped:
  assumes "fst (main rt ec2 w) = Inl x"
  shows "\<exists>e. x = PyException main_error_msg e \<and> fst (main_try rt ec2 w) = Inl e"
proof -
  obtain r w' where t: "main_try rt ec2 w = (r, w')"
    by (cases "main_try rt ec2 w")
  show ?thesis
  proof (cases r)
    case (Inl e)
    with t assms show ?thesis by (simp add: main_def)
  next
    case (Inr S)
    with t assms show ?thesis by (simp add: main_def)
  qed
qed

lemma main_events_after_tag:
  assumes "list_snapshot ec2 = Inr A" and "list_ami ec2 = Inr B" and "A - B \<noteq> {}"
  shows "\<exists>k \<le> length (set_order rt (A - B)). \<exists>closing.
     events (snd (main rt ec2 w)) =
       events w @ CreateTags (set_order rt (A - B)) [(''NotAttachedAMI'', ''True'')] #
         (if create_tags ec2 (set_order rt (A - B)) [(''NotAttachedAMI'', ''True'')] = None
          then FileOpen # map (\<lambda>i. FileWrite (i @ [newline])) (take k (set_order rt (A - B)))
                 @ closing
          else [])
     \<and> (closing = [] \<or> closing = [FileClose])"
proof (cases "create_tags ec2 (set_order rt (A - B)) [(''NotAttachedAMI'', ''True'')]")
  case (Some e)
  from main_tag_error [OF assms Some, of w]
  have "events (snd (main rt ec2 w)) =
      events w @ [CreateTags (set_order rt (A - B)) [(''NotAttachedAMI'', ''True'')]]"
    by simp
  with Some show ?thesis by auto
next
  case None
  let ?w1 = "w\<lparr>events := events w @
                 [CreateTags (set_order rt (A - B)) [(''NotAttachedAMI'', ''True'')]]\<rparr>"
  obtain r w2 where ex: "export_text rt (A - B) ?w1 = (r, w2)"
    by (cases "export_text rt (A - B) ?w1")
  from main_tag_ok_world [OF assms None, of w] ex have w2: "snd (main rt ec2 w) = w2"
    by simp
  from export_text_world [OF ex] obtain k closing where
    k: "k \<le> length (set_order rt (A - B))"
    and ev: "events w2 = events ?w1 @ FileOpen #
          map (\<lambda>i. FileWrite (i @ [newline])) (take k (set_order rt (A - B))) @ closing"
    and cl: "closing = [] \<or> closing = [FileClose]"
    by blast
  from ev have "events (snd (main rt ec2 w)) =
       events w @ CreateTags (set_order rt (A - B)) [(''NotAttachedAMI'', ''True'')] #
          FileOpen # map (\<lambda>i. FileWrite (i @ [newline])) (take k (set_order rt (A - B)))
                 @ closing"
    by (simp add: w2)
  with None k cl show ?thesis by auto
qed

section \<open>Members of the collected sets\<close>

lemma list_snapshot_eq:
  "list_snapshot ec2 =
     (if None \<in> Snapshots ` set (fst (describe_snapshots ec2 [ACCOUNT_ID]))
      then Inl (KeyError ''Snapshots'')
      else case snd (describe_snapshots ec2 [ACCOUNT_ID]) of
             Some e \<Rightarrow> Inl e
           | None \<Rightarrow> Inr (\<Union>p \<in> set (fst (describe_snapshots ec2 [ACCOUNT_ID])).
                        snapshots_loop (dict_get (Snapshots p) []) {}))"
  by (cases "describe_snapshots ec2 [ACCOUNT_ID]")
     (simp add: list_snapshot_def snapshot_pages_loop_eq split: option.splits)

lemma list_ami_eq:
  "list_ami ec2 =
     (if None \<in> Images ` set (fst (describe_images ec2 [ACCOUNT_ID]))
      then Inl (KeyError ''Images'')
      else case snd (describe_images ec2 [ACCOUNT_ID]) of
             Some e \<Rightarrow> Inl e
           | None \<Rightarrow> Inr (\<Union>p \<in> set (fst (describe_images ec2 [ACCOUNT_ID])).
                        images_loop (dict_get (Images p) []) {}))"
  by (cases "describe_images ec2 [ACCOUNT_ID]")
     (simp add: list_ami_def image_pages_loop_eq split: option.splits)

lemma list_snapshot_members:
  assumes "list_snapshot ec2 = Inr S"
  shows "x \<in> S \<longleftrightarrow>
     (\<exists>page records s. page \<in> set (fst (describe_snapshots ec2 [ACCOUNT_ID]))
        \<and> Snapshots page = Some records \<and> s \<in> set records
        \<and> str_contains ''Created by CreateImage'' (dict_get (snap_Description s) '''')
        \<and> x = dict_get (snap_SnapshotId s) '''')"
proof -
  let ?pages = "fst (describe_snapshots ec2 [ACCOUNT_ID])"
  from assms have keys: "None \<notin> Snapshots ` set ?pages"
    and S: "S = (\<Union>p \<in> set ?pages. snapshots_loop (dict_get (Snapshots p) []) {})"
    by (auto simp: list_snapshot_eq split: if_splits option.splits)
  have page: "\<exists>records. Snapshots p = Some records" if "p \<in> set ?pages" for p
    using keys that by (cases "Snapshots p") (auto simp: image_iff)
  show ?thesis
  proof
    assume "x \<in> S"
    with S obtain p where p: "p \<in> set ?pages"
      and x: "x \<in> snapshots_loop (dict_get (Snapshots p) []) {}"
      by auto
    from page [OF p] obtain records where r: "Snapshots p = Some records" ..
    with x have "x \<in> snapshots_loop records {}"
      by (simp add: dict_get_def)
    then obtain s where "s \<in> set records"
      "str_contains ''Created by CreateImage'' (dict_get (snap_Description s) '''')"
      "x = dict_get (snap_SnapshotId s) ''''"
      by (auto simp: snapshots_loop_eq [of records "{}"])
    with p r show "\<exists>page records s. page \<in> set ?pages
        \<and> Snapshots page = Some records \<and> s \<in> set records
        \<and> str_contains ''Created by CreateImage'' (dict_get (snap_Description s) '''')
        \<and> x = dict_get (snap_SnapshotId s) ''''"
      by blast
  next
    assume "\<exists>page records s. page \<in> set ?pages
        \<and> Snapshots page = Some records \<and> s \<in> set records
        \<and> str_contains ''Created by CreateImage'' (dict_get (snap_Description s) '''')
        \<and> x = dict_get (snap_SnapshotId s) ''''"
    then obtain page records s where p: "page \<in> set ?pages"
      and r: "Snapshots page = Some records" and s: "s \<in> set records"
      and m: "str_contains ''Created by CreateImage'' (dict_get (snap_Description s) '''')"
      and x: "x = dict_get (snap_SnapshotId s) ''''"
      by blast
    from s m x have "x \<in> snapshots_loop records {}"
      by (auto simp: snapshots_loop_eq [of records "{}"])
    with r have "x \<in> snapshots_loop (dict_get (Snapshots page) []) {}"
      by (simp add: dict_get_def)
    with p S show "x \<in> S" by blast
  qed
qed

lemma list_ami_members:
  assumes "list_ami ec2 = Inr B"
  shows "x \<in> B \<longleftrightarrow>
     (\<exists>page amis ami block. page \<in> set (fst (describe_images ec2 [ACCOUNT_ID]))
        \<and> Images page = Some amis \<and> ami \<in> set amis
        \<and> block \<in> set (dict_get (BlockDeviceMappings ami) [])
        \<and> x = dict_get (ebs_SnapshotId (dict_get (Ebs block) \<lparr>ebs_SnapshotId = None\<rparr>)) '''')"
proof -
  let ?pages = "fst (describe_images ec2 [ACCOUNT_ID])"
  from assms have keys: "None \<notin> Images ` set ?pages"
    and B: "B = (\<Union>p \<in> set ?pages. images_loop (dict_get (Images p) []) {})"
    by (auto simp: list_ami_eq split: if_splits option.splits)
  have page: "\<exists>amis. Images p = Some amis" if "p \<in> set ?pages" for p
    using keys that by (cases "Images p") (auto simp: image_iff)
  have loop: "x \<in> images_loop amis {} \<longleftrightarrow>
      (\<exists>ami block. ami \<in> set amis \<and> block \<in> set (dict_get (BlockDeviceMappings ami) [])
        \<and> x = dict_get (ebs_SnapshotId (dict_get (Ebs block) \<lparr>ebs_SnapshotId = None\<rparr>)) '''')"
    for amis
    by (auto simp: images_loop_eq [of amis "{}"] blocks_loop_eq [of _ "{}"])
  show ?thesis
  proof
    assume "x \<in> B"
    with B obtain p where p: "p \<in> set ?pages"
      and x: "x \<in> images_loop (dict_get (Images p) []) {}"
      by auto
    from page [OF p] obtain amis where r: "Images p = Some amis" ..
    with x have "x \<in> images_loop amis {}"
      by (simp add: dict_get_def)
    with loop [of amis] p r show "\<exists>page amis ami block. page \<in> set ?pages
        \<and> Images page = Some amis \<and> ami \<in> set amis
        \<and> block \<in> set (dict_get (BlockDeviceMappings ami) [])
        \<and> x = dict_get (ebs_SnapshotId (dict_get (Ebs block) \<lparr>ebs_SnapshotId = None\<rparr>)) ''''"
      by blast
  next
    assume "\<exists>page amis ami block. page \<in> set ?pages
        \<and> Images page = Some amis \<and> ami \<in> set amis
        \<and> block \<in> set (dict_get (BlockDeviceMappings ami) [])
        \<and> x = dict_get (ebs_SnapshotId (dict_get (Ebs block) \<lparr>ebs_SnapshotId = None\<rparr>)) ''''"
    then obtain page amis ami block where p: "page \<in> set ?pages"
      and r: "Images page = Some amis" and rest: "ami \<in> set amis"
        "block \<in> set (dict_get (BlockDeviceMappings ami) [])"
        "x = dict_get (ebs_SnapshotId (dict_get (Ebs block) \<lparr>ebs_SnapshotId = None\<rparr>)) ''''"
      by blast
    from rest loop [of amis] have "x \<in> images_loop amis {}"
      by blast
    with r have "x \<in> images_loop (dict_get (Images page) []) {}"
      by (simp add: dict_get_def)
    with p B show "x \<in> B" by blast
  qed
qed

lemma no_snapshot_id_default:
  assumes "Ebs block = None \<or> (\<exists>e. Ebs block = Some e \<and> ebs_SnapshotId e = None)"
  shows "dict_get (ebs_SnapshotId (dict_get (Ebs block) \<lparr>ebs_SnapshotId = None\<rparr>)) '''' = ''''"
  using assms by (auto simp: dict_get_def)

lemma snapshot_id_nonempty:
  assumes "dict_get (ebs_SnapshotId (dict_get (Ebs block) \<lparr>ebs_SnapshotId = None\<rparr>)) '''' = x"
    and "x \<noteq> ''''"
  shows "\<exists>e. Ebs block = Some e \<and> ebs_SnapshotId e = Some x"
proof (cases "Ebs block")
  case None
  with assms show ?thesis by (simp add: dict_get_def)
next
  case (Some e)
  with assms show ?thesis by (cases "ebs_SnapshotId e") (simp_all add: dict_get_def)
qed

lemma list_ami_has_empty_string:
  assumes "list_ami ec2 = Inr B"
    and "page \<in> set (fst (describe_images ec2 [ACCOUNT_ID]))"
    and "Images page = Some amis" and "ami \<in> set amis"
    and "block \<in> set (dict_get (BlockDeviceMappings ami) [])"
    and "Ebs block = None \<or> (\<exists>e. Ebs block = Some e \<and> ebs_SnapshotId e = None)"
  shows "'''' \<in> B"
proof -
  from no_snapshot_id_default [OF assms(6)] assms(2-5)
  have "\<exists>page amis ami block. page \<in> set (fst (describe_images ec2 [ACCOUNT_ID]))
        \<and> Images page = Some amis \<and> ami \<in> set amis
        \<and> block \<in> set (dict_get (BlockDeviceMappings ami) [])
        \<and> '''' = dict_get (ebs_SnapshotId (dict_get (Ebs block) \<lparr>ebs_SnapshotId = None\<rparr>)) ''''"
    by metis
  then show ?thesis
    by (simp only: list_ami_members [OF assms(1)])
qed

lemma main_new_events:
  assumes "list_snapshot ec2 = Inr A" and "list_ami ec2 = Inr B"
    and order: "set (set_order rt (A - B)) = A - B"
  shows "\<exists>new. events (snd (main rt ec2 w)) = events w @ new
     \<and> (\<forall>ids tags. CreateTags ids tags \<in> set new \<longrightarrow> set ids = A - B)
     \<and> (\<forall>line. FileWrite line \<in> set new \<longrightarrow> line \<in> (\<lambda>i. i @ [newline]) ` (A - B))"
proof (cases "A - B = {}")
  case True
  from main_no_orphan [OF assms(1,2) True, of rt w]
  have "events (snd (main rt ec2 w)) = events w @ []" by simp
  then show ?thesis by (intro exI [of _ "[]"]) simp
next
  case False
  let ?ids = "set_order rt (A - B)"
  from main_events_after_tag [OF assms(1,2) False, of rt w] obtain k closing where
    ev: "events (snd (main rt ec2 w)) =
       events w @ CreateTags ?ids [(''NotAttachedAMI'', ''True'')] #
         (if create_tags ec2 ?ids [(''NotAttachedAMI'', ''True'')] = None
          then FileOpen # map (\<lambda>i. FileWrite (i @ [newline])) (take k ?ids) @ closing
          else [])"
    and cl: "closing = [] \<or> closing = [FileClose]"
    by blast
  let ?new = "CreateTags ?ids [(''NotAttachedAMI'', ''True'')] #
         (if create_tags ec2 ?ids [(''NotAttachedAMI'', ''True'')] = None
          then FileOpen # map (\<lambda>i. FileWrite (i @ [newline])) (take k ?ids) @ closing
          else [])"
  have tags: "set ids = A - B" if "CreateTags ids tags \<in> set ?new" for ids tags
  proof -
    from that cl have "ids = ?ids"
      by (auto split: if_splits)
    with order show ?thesis by simp
  qed
  have writes: "line \<in> (\<lambda>i. i @ [newline]) ` (A - B)" if "FileWrite line \<in> set ?new" for line
  proof -
    from that cl have "FileWrite line \<in>
        set (map (\<lambda>i. FileWrite (i @ [newline])) (take k ?ids))"
      by (auto split: if_splits)
    then obtain i where "i \<in> set (take k ?ids)" "line = i @ [newline]"
      by auto
    then have "i \<in> set ?ids" "line = i @ [newline]"
      by (auto dest: in_set_takeD)
    with order show ?thesis by blast
  qed
  from ev tags writes show ?thesis
    by (intro exI [of _ ?new]) blast
qed

section \<open>The collectors depend on the contents of the pages only\<close>

lemma list_snapshot_page_contents:
  assumes "mset (map (map_option mset \<circ> Snapshots) pages') =
           mset (map (map_option mset \<circ> Snapshots) pages)"
  shows "list_snapshot (ec2\<lparr>describe_snapshots := \<lambda>owners. (pages', raised)\<rparr>) =
         list_snapshot (ec2\<lparr>describe_snapshots := \<lambda>owners. (pages, raised)\<rparr>)"
proof -
  define f where "f = map_option mset \<circ> (Snapshots :: snapshots_page \<Rightarrow> snapshot list option)"
  define g where "g = (\<lambda>c :: snapshot multiset option. case c of None \<Rightarrow> {}
     | Some m \<Rightarrow> (\<lambda>s. dict_get (snap_SnapshotId s) '''') `
         {s \<in> set_mset m. str_contains ''Created by CreateImage'' (dict_get (snap_Description s) '''')})"
  have loop: "snapshots_loop (dict_get (Snapshots p) []) {} = g (f p)" for p
    by (cases "Snapshots p")
       (simp_all add: f_def g_def dict_get_def snapshots_loop_eq [of _ "{}"])
  have key: "None \<in> Snapshots ` set ps \<longleftrightarrow> None \<in> f ` set ps" for ps
    by (simp add: f_def image_iff) metis
  have result: "list_snapshot (ec2\<lparr>describe_snapshots := \<lambda>owners. (ps, raised)\<rparr>) =
      (if None \<in> f ` set ps then Inl (KeyError ''Snapshots'')
       else case raised of Some e \<Rightarrow> Inl e | None \<Rightarrow> Inr (\<Union> (g ` f ` set ps)))" for ps
    by (simp add: list_snapshot_eq key loop image_image split: option.splits)
  from assms have "mset (map f pages') = mset (map f pages)"
    by (simp add: f_def)
  then have "set (map f pages') = set (map f pages)"
    by (rule mset_eq_setD)
  then have "f ` set pages' = f ` set pages"
    by simp
  then show ?thesis
    by (simp only: result)
qed

lemma list_ami_page_contents:
  assumes "mset (map (map_option mset \<circ> Images) pages') =
           mset (map (map_option mset \<circ> Images) pages)"
  shows "list_ami (ec2\<lparr>describe_images := \<lambda>owners. (pages', raised)\<rparr>) =
         list_ami (ec2\<lparr>describe_images := \<lambda>owners. (pages, raised)\<rparr>)"
proof -
  define f where "f = map_option mset \<circ> (Images :: images_page \<Rightarrow> image list option)"
  define g where "g = (\<lambda>c :: image multiset option. case c of None \<Rightarrow> {}
     | Some m \<Rightarrow> (\<Union>a \<in> set_mset m. blocks_loop (dict_get (BlockDeviceMappings a) []) {}))"
  have loop: "images_loop (dict_get (Images p) []) {} = g (f p)" for p
    by (cases "Images p")
       (simp_all add: f_def g_def dict_get_def images_loop_eq [of _ "{}"])
  have key: "None \<in> Images ` set ps \<longleftrightarrow> None \<in> f ` set ps" for ps
    by (simp add: f_def image_iff) metis
  have result: "list_ami (ec2\<lparr>describe_images := \<lambda>owners. (ps, raised)\<rparr>) =
      (if None \<in> f ` set ps then Inl (KeyError ''Images'')
       else case raised of Some e \<Rightarrow> Inl e | None \<Rightarrow> Inr (\<Union> (g ` f ` set ps)))" for ps
    by (simp add: list_ami_eq key loop image_image split: option.splits)
  from assms have "mset (map f pages') = mset (map f pages)"
    by (simp add: f_def)
  then have "set (map f pages') = set (map f pages)"
    by (rule mset_eq_setD)
  then have "f ` set pages' = f ` set pages"
    by simp
  then show ?thesis
    by (simp only: result)
qed

section \<open>The content of the export file\<close>







section \<open>Claims about the orchestrator\<close>

lemma ex_manual_list_snapshot: "list_snapshot ex_client_manual = Inr {}"
  by (simp add: list_snapshot_def ex_client_manual_def dict_get_def)

lemma ex_manual_list_ami: "list_ami ex_client_manual = Inr {}"
  by (simp add: list_ami_def ex_client_manual_def)

text \<open>
  C1. When both collectors succeed with the sets \<open>A\<close> and \<open>B\<close>, whatever \<open>main\<close> returns
  is the difference \<open>A - B\<close>: the empty set when \<open>B = A\<close>, \<open>A\<close> when \<open>B\<close> is empty, the
  empty set when \<open>A\<close> is empty. When the difference is empty, \<open>main\<close> does return it.
\<close>

theorem main_returns_difference:
  assumes "list_snapshot ec2 = Inr A" and "list_ami ec2 = Inr B"
  shows "(\<forall>R. fst (main rt ec2 w) = Inr R \<longrightarrow>
            R = A - B \<and> (B = A \<longrightarrow> R = {}) \<and> (B = {} \<longrightarrow> R = A) \<and> (A = {} \<longrightarrow> R = {}))
       \<and> (A - B = {} \<longrightarrow> fst (main rt ec2 w) = Inr {})"
proof (intro conjI allI impI)
  fix R assume ret: "fst (main rt ec2 w) = Inr R"
  from main_returned_value [OF assms ret] show diff: "R = A - B" .
  show "R = {}" if "B = A" using diff that by simp
  show "R = A" if "B = {}" using diff that by simp
  show "R = {}" if "A = {}" using diff that by simp
next
  assume "A - B = {}"
  from main_no_orphan [OF assms this, of rt w] show "fst (main rt ec2 w) = Inr {}"
    by simp
qed

theorem main_returns_difference_witness:
  "list_snapshot (ex_client None) = Inr {''snap-1'', ''snap-2'', ''snap-3''}
   \<and> list_ami (ex_client None) = Inr {''snap-1'', ''snap-3''}
   \<and> fst (main ex_runtime (ex_client None) ex_world) = Inr {''snap-2''}
   \<and> {''snap-2''} = {''snap-1'', ''snap-2'', ''snap-3''} - {''snap-1'', ''snap-3''}
   \<and> list_snapshot ex_client_manual = Inr {} \<and> list_ami ex_client_manual = Inr {}
   \<and> ({}::string set) - {} = {}
   \<and> fst (main ex_runtime ex_client_manual ex_world) = Inr {}"
proof -
  note scenario = main_returns_difference [where rt = ex_runtime and w = ex_world,
      OF ex_list_snapshot [of None] ex_list_ami [of None]]
  note manual = main_returns_difference [where rt = ex_runtime and w = ex_world,
      OF ex_manual_list_snapshot ex_manual_list_ami]
  have ret: "fst (main ex_runtime (ex_client None) ex_world) = Inr {''snap-2''}"
    by (simp add: ex_main_ok)
  from scenario have "\<forall>R. fst (main ex_runtime (ex_client None) ex_world) = Inr R \<longrightarrow>
      R = {''snap-1'', ''snap-2'', ''snap-3''} - {''snap-1'', ''snap-3''}
      \<and> ({''snap-1'', ''snap-3''} = {''snap-1'', ''snap-2'', ''snap-3''} \<longrightarrow> R = {})
      \<and> ({''snap-1'', ''snap-3''} = {} \<longrightarrow> R = {''snap-1'', ''snap-2'', ''snap-3''})
      \<and> ({''snap-1'', ''snap-2'', ''snap-3''} = {} \<longrightarrow> R = {})"
    by (rule conjunct1)
  then have "fst (main ex_runtime (ex_client None) ex_world) = Inr {''snap-2''} \<longrightarrow>
      {''snap-2''} = {''snap-1'', ''snap-2'', ''snap-3''} - {''snap-1'', ''snap-3''}
      \<and> ({''snap-1'', ''snap-3''} = {''snap-1'', ''snap-2'', ''snap-3''} \<longrightarrow> {''snap-2''} = {})
      \<and> ({''snap-1'', ''snap-3''} = {} \<longrightarrow> {''snap-2''} = {''snap-1'', ''snap-2'', ''snap-3''})
      \<and> ({''snap-1'', ''snap-2'', ''snap-3''} = {} \<longrightarrow> {''snap-2''} = {})"
    by (rule spec)
  from this ret have one:
    "{''snap-2''} = {''snap-1'', ''snap-2'', ''snap-3''} - {''snap-1'', ''snap-3''}"
    by (rule conjunct1 [OF mp])
  have empty: "({}::string set) - {} = {}"
    by simp
  from manual have "({}::string set) - {} = {} \<longrightarrow>
      fst (main ex_runtime ex_client_manual ex_world) = Inr {}"
    by (rule conjunct2)
  with empty have two: "fst (main ex_runtime ex_client_manual ex_world) = Inr {}"
    by (rule rev_mp)
  from ex_list_snapshot [of None] ex_list_ami [of None] ret one
    ex_manual_list_snapshot ex_manual_list_ami empty two
  show ?thesis
    by (intro conjI)
qed

text \<open>
  C8. When the orphan set is empty, \<open>main\<close> returns the empty set and leaves the world
  as it was: no tagging call, no file operation, the export file untouched.
\<close>

theorem main_empty_orphans_no_effect:
  assumes "list_snapshot ec2 = Inr A" and "list_ami ec2 = Inr B" and "A - B = {}"
  shows "main rt ec2 w = (Inr {}, w)"
  using assms by (rule main_no_orphan)

theorem main_empty_orphans_no_effect_witness:
  "list_snapshot ex_client_manual = Inr {} \<and> list_ami ex_client_manual = Inr {}
   \<and> ({}::string set) - {} = {}
   \<and> main ex_runtime ex_client_manual ex_world = (Inr {}, ex_world)"
proof -
  have "({}::string set) - {} = {}" by simp
  from main_empty_orphans_no_effect [OF ex_manual_list_snapshot ex_manual_list_ami this]
  show ?thesis
    by (simp add: ex_manual_list_snapshot ex_manual_list_ami)
qed

lemma ex_snapshots_fail: "list_snapshot ex_client_snapshots_fail = Inl (ClientError ''Throttling'')"
  by (simp add: list_snapshot_def ex_client_snapshots_fail_def)

lemma ex_images_fail_snapshots:
  "list_snapshot ex_client_images_fail = Inr {''snap-1'', ''snap-2'', ''snap-3''}"
  using ex_list_snapshot [of None]
  by (simp add: list_snapshot_def ex_client_images_fail_def)

lemma ex_images_fail: "list_ami ex_client_images_fail = Inl (ClientError ''Throttling'')"
  by (simp add: list_ami_def ex_client_images_fail_def)

lemma ex_orphans_nonempty: "{''snap-1'', ''snap-2'', ''snap-3''} - {''snap-1'', ''snap-3''} \<noteq> {}"
  by (simp add: ex_diff)

lemma ex_order: "set_order ex_runtime ({''snap-1'', ''snap-2'', ''snap-3''} - {''snap-1'', ''snap-3''})
    = [''snap-2'']"
  by (simp add: ex_diff ex_runtime_def)

text \<open>
  C4, as stated, fails: in the example scenario the tagging call raises on the orphan
  set \<open>{snap-2}\<close>, and \<open>main\<close> raises instead of returning that set.
\<close>

theorem main_tag_failure_counterexample:
  "list_snapshot (ex_client (Some (ClientError ''denied''))) = Inr {''snap-1'', ''snap-2'', ''snap-3''}
   \<and> list_ami (ex_client (Some (ClientError ''denied''))) = Inr {''snap-1'', ''snap-3''}
   \<and> {''snap-1'', ''snap-2'', ''snap-3''} - {''snap-1'', ''snap-3''} = {''snap-2''}
   \<and> create_tags (ex_client (Some (ClientError ''denied''))) [''snap-2'']
         [(''NotAttachedAMI'', ''True'')] = Some (ClientError ''denied'')
   \<and> fst (main ex_runtime (ex_client (Some (ClientError ''denied''))) ex_world)
         \<noteq> Inr {''snap-2''}"
proof -
  have "create_tags (ex_client (Some (ClientError ''denied''))) [''snap-2'']
         [(''NotAttachedAMI'', ''True'')] = Some (ClientError ''denied'')"
    by (simp add: ex_client_def)
  moreover have "fst (main ex_runtime (ex_client (Some (ClientError ''denied''))) ex_world)
         \<noteq> Inr {''snap-2''}"
    by (simp add: ex_main_tag_fail)
  ultimately show ?thesis
    by (simp only: ex_list_snapshot ex_list_ami ex_diff simp_thms)
qed

text \<open>
  C4, amended. If the tagging call raises \<open>e\<close> on a non-empty orphan set, \<open>main\<close> raises
  the wrapped exception with cause \<open>e\<close> and returns nothing, so the orphan set does not
  reach the caller; the only effect is the attempted tagging call, and the export file
  is untouched.
\<close>

theorem main_tag_failure_raises:
  assumes "list_snapshot ec2 = Inr A" and "list_ami ec2 = Inr B" and "A - B \<noteq> {}"
    and "create_tags ec2 (set_order rt (A - B)) [(''NotAttachedAMI'', ''True'')] = Some e"
  shows "fst (main rt ec2 w) = Inl (PyException main_error_msg e)
       \<and> fst (main rt ec2 w) \<noteq> Inr (A - B)
       \<and> events (snd (main rt ec2 w)) =
           events w @ [CreateTags (set_order rt (A - B)) [(''NotAttachedAMI'', ''True'')]]
       \<and> export_file (snd (main rt ec2 w)) = export_file w
       \<and> open_handles (snd (main rt ec2 w)) = open_handles w"
  by (simp add: main_tag_error [OF assms])

theorem main_tag_failure_raises_witness:
  "list_snapshot (ex_client (Some (ClientError ''denied''))) = Inr {''snap-1'', ''snap-2'', ''snap-3''}
   \<and> list_ami (ex_client (Some (ClientError ''denied''))) = Inr {''snap-1'', ''snap-3''}
   \<and> {''snap-1'', ''snap-2'', ''snap-3''} - {''snap-1'', ''snap-3''} \<noteq> ({}::string set)
   \<and> create_tags (ex_client (Some (ClientError ''denied'')))
         (set_order ex_runtime ({''snap-1'', ''snap-2'', ''snap-3''} - {''snap-1'', ''snap-3''}))
         [(''NotAttachedAMI'', ''True'')] = Some (ClientError ''denied'')
   \<and> fst (main ex_runtime (ex_client (Some (ClientError ''denied''))) ex_world)
         = Inl (PyException main_error_msg (ClientError ''denied''))
   \<and> export_file (snd (main ex_runtime (ex_client (Some (ClientError ''denied''))) ex_world))
         = Some ''snap-0''"
proof -
  have tag: "create_tags (ex_client (Some (ClientError ''denied'')))
         (set_order ex_runtime ({''snap-1'', ''snap-2'', ''snap-3''} - {''snap-1'', ''snap-3''}))
         [(''NotAttachedAMI'', ''True'')] = Some (ClientError ''denied'')"
    by (simp add: ex_client_def)
  note inst = main_tag_failure_raises [where rt = ex_runtime and w = ex_world,
      OF ex_list_snapshot ex_list_ami ex_orphans_nonempty tag]
  have "export_file ex_world = Some ''snap-0''"
    by (simp add: ex_world_def)
  with inst tag show ?thesis
    by (simp only: ex_list_snapshot ex_list_ami ex_orphans_nonempty simp_thms not_False_eq_True)
qed

text \<open>
  C5. In a run with a non-empty orphan set the first effect of \<open>main\<close> is the tagging
  call, on the whole orphan set; no other tagging call follows; every line written to
  the export afterwards is the id of a snapshot of that call; and when the tagging call
  raises, nothing follows it: no file is opened or written and the export file is as
  it was.
\<close>

theorem main_tags_before_export:
  assumes "list_snapshot ec2 = Inr A" and "list_ami ec2 = Inr B" and "A - B \<noteq> {}"
  shows "\<exists>rest. events (snd (main rt ec2 w)) =
           events w @ CreateTags (set_order rt (A - B)) [(''NotAttachedAMI'', ''True'')] # rest
       \<and> (\<forall>ids tags. CreateTags ids tags \<notin> set rest)
       \<and> (\<forall>line. FileWrite line \<in> set rest \<longrightarrow>
             line \<in> (\<lambda>i. i @ [newline]) ` set (set_order rt (A - B)))
       \<and> (create_tags ec2 (set_order rt (A - B)) [(''NotAttachedAMI'', ''True'')] \<noteq> None \<longrightarrow>
             rest = [] \<and> export_file (snd (main rt ec2 w)) = export_file w)"
proof (cases "create_tags ec2 (set_order rt (A - B)) [(''NotAttachedAMI'', ''True'')]")
  case (Some e)
  from main_tag_error [OF assms Some, of w]
  have "events (snd (main rt ec2 w)) =
      events w @ CreateTags (set_order rt (A - B)) [(''NotAttachedAMI'', ''True'')] # []"
    and "export_file (snd (main rt ec2 w)) = export_file w"
    by simp_all
  then show ?thesis by (intro exI [of _ "[]"]) simp
next
  case None
  from main_events_after_tag [OF assms, of rt w] None obtain k closing where
    ev: "events (snd (main rt ec2 w)) =
       events w @ CreateTags (set_order rt (A - B)) [(''NotAttachedAMI'', ''True'')] #
         (FileOpen # map (\<lambda>i. FileWrite (i @ [newline])) (take k (set_order rt (A - B)))
                 @ closing)"
    and cl: "closing = [] \<or> closing = [FileClose]"
    by auto
  let ?rest = "FileOpen # map (\<lambda>i. FileWrite (i @ [newline])) (take k (set_order rt (A - B)))
                 @ closing"
  have no_tags: "CreateTags ids tags \<notin> set ?rest" for ids tags
    using cl by auto
  have written: "line \<in> (\<lambda>i. i @ [newline]) ` set (set_order rt (A - B))"
    if "FileWrite line \<in> set ?rest" for line
  proof -
    from that cl have "FileWrite line \<in>
        set (map (\<lambda>i. FileWrite (i @ [newline])) (take k (set_order rt (A - B))))"
      by auto
    then obtain i where "i \<in> set (take k (set_order rt (A - B)))" "line = i @ [newline]"
      by auto
    then show ?thesis
      by (auto dest: in_set_takeD)
  qed
  show ?thesis
  proof (intro exI [of _ ?rest] conjI allI impI)
    show "events (snd (main rt ec2 w)) =
      events w @ CreateTags (set_order rt (A - B)) [(''NotAttachedAMI'', ''True'')] # ?rest"
      by (rule ev)
    show "CreateTags ids tags \<notin> set ?rest" for ids tags
      by (rule no_tags)
    show "line \<in> (\<lambda>i. i @ [newline]) ` set (set_order rt (A - B))"
      if "FileWrite line \<in> set ?rest" for line
      using that by (rule written)
    assume "create_tags ec2 (set_order rt (A - B)) [(''NotAttachedAMI'', ''True'')] \<noteq> None"
    with None show "?rest = []" by simp
    with None show "export_file (snd (main rt ec2 w)) = export_file w" by simp
  qed
qed


theorem main_tags_before_export_witness:
  "list_snapshot (ex_client None) = Inr {''snap-1'', ''snap-2'', ''snap-3''}
   \<and> list_ami (ex_client None) = Inr {''snap-1'', ''snap-3''}
   \<and> {''snap-1'', ''snap-2'', ''snap-3''} - {''snap-1'', ''snap-3''} \<noteq> ({}::string set)
   \<and> (\<exists>rest. events (snd (main ex_runtime (ex_client None) ex_world)) =
          CreateTags [''snap-2''] [(''NotAttachedAMI'', ''True'')] # rest
        \<and> FileWrite (''snap-2'' @ [newline]) \<in> set rest
        \<and> ''snap-2'' @ [newline] \<in> (\<lambda>i. i @ [newline]) ` set [''snap-2''])
   \<and> create_tags (ex_client (Some (ClientError ''denied''))) [''snap-2'']
         [(''NotAttachedAMI'', ''True'')] \<noteq> None
   \<and> events (snd (main ex_runtime (ex_client (Some (ClientError ''denied''))) ex_world)) =
         [CreateTags [''snap-2''] [(''NotAttachedAMI'', ''True'')]]
   \<and> export_file (snd (main ex_runtime (ex_client (Some (ClientError ''denied''))) ex_world)) =
         Some ''snap-0''"
proof -
  have world: "events ex_world = []" "export_file ex_world = Some ''snap-0''"
    by (simp_all add: ex_world_def)
  have first: "\<exists>rest. events (snd (main ex_runtime (ex_client None) ex_world)) =
          CreateTags [''snap-2''] [(''NotAttachedAMI'', ''True'')] # rest
        \<and> FileWrite (''snap-2'' @ [newline]) \<in> set rest
        \<and> ''snap-2'' @ [newline] \<in> (\<lambda>i. i @ [newline]) ` set [''snap-2'']"
  proof -
    from main_tags_before_export [where rt = ex_runtime and w = ex_world,
        OF ex_list_snapshot [of None] ex_list_ami [of None] ex_orphans_nonempty]
    obtain rest where
      ev: "events (snd (main ex_runtime (ex_client None) ex_world)) =
           events ex_world @ CreateTags (set_order ex_runtime
             ({''snap-1'', ''snap-2'', ''snap-3''} - {''snap-1'', ''snap-3''}))
             [(''NotAttachedAMI'', ''True'')] # rest"
      and wr: "\<forall>line. FileWrite line \<in> set rest \<longrightarrow>
             line \<in> (\<lambda>i. i @ [newline]) ` set (set_order ex_runtime
               ({''snap-1'', ''snap-2'', ''snap-3''} - {''snap-1'', ''snap-3''}))"
      by blast
    from ev have ev': "events (snd (main ex_runtime (ex_client None) ex_world)) =
        CreateTags [''snap-2''] [(''NotAttachedAMI'', ''True'')] # rest"
      by (simp only: ex_order world append_Nil)
    then have "rest = [FileOpen, FileWrite (''snap-2'' @ [newline]), FileClose]"
      by (simp add: ex_main_ok)
    then have mem: "FileWrite (''snap-2'' @ [newline]) \<in> set rest"
      by simp
    with wr have "''snap-2'' @ [newline] \<in> (\<lambda>i. i @ [newline]) ` set (set_order ex_runtime
               ({''snap-1'', ''snap-2'', ''snap-3''} - {''snap-1'', ''snap-3''}))"
      by blast
    then have "''snap-2'' @ [newline] \<in> (\<lambda>i. i @ [newline]) ` set [''snap-2'']"
      by (simp only: ex_order)
    with ev' mem show ?thesis by blast
  qed
  have tag: "create_tags (ex_client (Some (ClientError ''denied''))) [''snap-2'']
         [(''NotAttachedAMI'', ''True'')] \<noteq> None"
    by (simp add: ex_client_def)
  have second: "events (snd (main ex_runtime (ex_client (Some (ClientError ''denied''))) ex_world)) =
         [CreateTags [''snap-2''] [(''NotAttachedAMI'', ''True'')]]
     \<and> export_file (snd (main ex_runtime (ex_client (Some (ClientError ''denied''))) ex_world)) =
         Some ''snap-0''"
  proof -
    from main_tags_before_export [where rt = ex_runtime and w = ex_world,
        OF ex_list_snapshot [of "Some (ClientError ''denied'')"]
           ex_list_ami [of "Some (ClientError ''denied'')"] ex_orphans_nonempty]
    obtain rest where
      ev: "events (snd (main ex_runtime (ex_client (Some (ClientError ''denied''))) ex_world)) =
           events ex_world @ CreateTags (set_order ex_runtime
             ({''snap-1'', ''snap-2'', ''snap-3''} - {''snap-1'', ''snap-3''}))
             [(''NotAttachedAMI'', ''True'')] # rest"
      and stop: "create_tags (ex_client (Some (ClientError ''denied''))) (set_order ex_runtime
             ({''snap-1'', ''snap-2'', ''snap-3''} - {''snap-1'', ''snap-3''}))
             [(''NotAttachedAMI'', ''True'')] \<noteq> None \<longrightarrow>
           rest = [] \<and>
           export_file (snd (main ex_runtime (ex_client (Some (ClientError ''denied''))) ex_world))
             = export_file ex_world"
      by blast
    from stop tag have "rest = []"
      and "export_file (snd (main ex_runtime (ex_client (Some (ClientError ''denied''))) ex_world))
             = export_file ex_world"
      by (simp_all only: ex_order simp_thms)
    with ev show ?thesis
      by (simp only: ex_order world append_Nil simp_thms)
  qed
  from first second tag show ?thesis
    by (simp only: ex_list_snapshot ex_list_ami ex_orphans_nonempty simp_thms not_False_eq_True)
qed

text \<open>
  C6, as stated, fails: a run whose snapshot listing fails and a run whose image
  listing fails with the same error raise the very same exception, so the message of
  the wrapper does not tell which inventory failed.
\<close>

theorem main_wrapper_counterexample:
  "list_snapshot ex_client_snapshots_fail = Inl (ClientError ''Throttling'')
   \<and> list_snapshot ex_client_images_fail = Inr {''snap-1'', ''snap-2'', ''snap-3''}
   \<and> list_ami ex_client_images_fail = Inl (ClientError ''Throttling'')
   \<and> fst (main ex_runtime ex_client_snapshots_fail ex_world) =
       fst (main ex_runtime ex_client_images_fail ex_world)"
proof -
  have "fst (main ex_runtime ex_client_snapshots_fail ex_world) =
      Inl (PyException main_error_msg (ClientError ''Throttling''))"
    by (simp add: main_snapshot_error [OF ex_snapshots_fail])
  moreover have "fst (main ex_runtime ex_client_images_fail ex_world) =
      Inl (PyException main_error_msg (ClientError ''Throttling''))"
    by (simp add: main_ami_error [OF ex_images_fail_snapshots ex_images_fail])
  ultimately show ?thesis
    by (simp only: ex_snapshots_fail ex_images_fail_snapshots ex_images_fail simp_thms)
qed

text \<open>
  C6, amended. Every exception raised inside the \<open>try\<close> block of \<open>main\<close> is raised
  again wrapped in one exception with the fixed message \<open>main_error_msg\<close> and the
  original exception as its cause, whatever the phase: the snapshot listing, the image
  listing, the tagging call or the export. Nothing \<open>main\<close> raises has another form.
\<close>

theorem main_wraps_every_error:
  "(\<forall>e. list_snapshot ec2 = Inl e \<longrightarrow>
        fst (main rt ec2 w) = Inl (PyException main_error_msg e))
   \<and> (\<forall>A e. list_snapshot ec2 = Inr A \<and> list_ami ec2 = Inl e \<longrightarrow>
        fst (main rt ec2 w) = Inl (PyException main_error_msg e))
   \<and> (\<forall>A B e. list_snapshot ec2 = Inr A \<and> list_ami ec2 = Inr B \<and> A - B \<noteq> {}
        \<and> create_tags ec2 (set_order rt (A - B)) [(''NotAttachedAMI'', ''True'')] = Some e \<longrightarrow>
        fst (main rt ec2 w) = Inl (PyException main_error_msg e))
   \<and> (\<forall>A B e. list_snapshot ec2 = Inr A \<and> list_ami ec2 = Inr B \<and> A - B \<noteq> {}
        \<and> create_tags ec2 (set_order rt (A - B)) [(''NotAttachedAMI'', ''True'')] = None
        \<and> fst (export_text rt (A - B)
              (w\<lparr>events := events w @
                 [CreateTags (set_order rt (A - B)) [(''NotAttachedAMI'', ''True'')]]\<rparr>)) = Inl e \<longrightarrow>
        fst (main rt ec2 w) = Inl (PyException main_error_msg e))
   \<and> (\<forall>x. fst (main rt ec2 w) = Inl x \<longrightarrow>
        (\<exists>e. x = PyException main_error_msg e \<and> fst (main_try rt ec2 w) = Inl e))"
proof (intro conjI allI impI)
  fix e assume "list_snapshot ec2 = Inl e"
  then show "fst (main rt ec2 w) = Inl (PyException main_error_msg e)"
    by (simp add: main_snapshot_error)
next
  fix A e assume "list_snapshot ec2 = Inr A \<and> list_ami ec2 = Inl e"
  then show "fst (main rt ec2 w) = Inl (PyException main_error_msg e)"
    by (simp add: main_ami_error)
next
  fix A B e
  assume "list_snapshot ec2 = Inr A \<and> list_ami ec2 = Inr B \<and> A - B \<noteq> {}
        \<and> create_tags ec2 (set_order rt (A - B)) [(''NotAttachedAMI'', ''True'')] = Some e"
  then show "fst (main rt ec2 w) = Inl (PyException main_error_msg e)"
    by (simp add: main_tag_error)
next
  fix A B e
  assume "list_snapshot ec2 = Inr A \<and> list_ami ec2 = Inr B \<and> A - B \<noteq> {}
        \<and> create_tags ec2 (set_order rt (A - B)) [(''NotAttachedAMI'', ''True'')] = None
        \<and> fst (export_text rt (A - B)
              (w\<lparr>events := events w @
                 [CreateTags (set_order rt (A - B)) [(''NotAttachedAMI'', ''True'')]]\<rparr>)) = Inl e"
  then show "fst (main rt ec2 w) = Inl (PyException main_error_msg e)"
    using main_tag_ok_error [of ec2 A B rt w e] by blast
next
  fix x assume "fst (main rt ec2 w) = Inl x"
  then show "\<exists>e. x = PyException main_error_msg e \<and> fst (main_try rt ec2 w) = Inl e"
    by (rule main_raised_is_wrapped)
qed

theorem main_wraps_every_error_witness:
  "list_snapshot ex_client_snapshots_fail = Inl (ClientError ''Throttling'')
   \<and> fst (main ex_runtime ex_client_snapshots_fail ex_world) =
        Inl (PyException main_error_msg (ClientError ''Throttling''))
   \<and> list_snapshot ex_client_images_fail = Inr {''snap-1'', ''snap-2'', ''snap-3''}
   \<and> list_ami ex_client_images_fail = Inl (ClientError ''Throttling'')
   \<and> fst (main ex_runtime ex_client_images_fail ex_world) =
        Inl (PyException main_error_msg (ClientError ''Throttling''))"
proof -
  note snap = main_wraps_every_error [of ex_client_snapshots_fail ex_runtime ex_world]
  note img = main_wraps_every_error [of ex_client_images_fail ex_runtime ex_world]
  from snap have "\<forall>e. list_snapshot ex_client_snapshots_fail = Inl e \<longrightarrow>
        fst (main ex_runtime ex_client_snapshots_fail ex_world) = Inl (PyException main_error_msg e)"
    by (rule conjunct1)
  with ex_snapshots_fail have one: "fst (main ex_runtime ex_client_snapshots_fail ex_world) =
        Inl (PyException main_error_msg (ClientError ''Throttling''))"
    by blast
  from img have "\<forall>A e. list_snapshot ex_client_images_fail = Inr A
        \<and> list_ami ex_client_images_fail = Inl e \<longrightarrow>
        fst (main ex_runtime ex_client_images_fail ex_world) = Inl (PyException main_error_msg e)"
    by (rule conjunct1 [OF conjunct2])
  with ex_images_fail_snapshots ex_images_fail
  have two: "fst (main ex_runtime ex_client_images_fail ex_world) =
        Inl (PyException main_error_msg (ClientError ''Throttling''))"
    by blast
  from one two show ?thesis
    by (simp only: ex_snapshots_fail ex_images_fail_snapshots ex_images_fail simp_thms)
qed

section \<open>Claims about the collectors\<close>

lemma ex_no_ebs_pages:
  "describe_images ex_client_no_ebs [ACCOUNT_ID] =
     ([\<lparr>Images = Some [\<lparr>BlockDeviceMappings = Some
            [\<lparr>Ebs = None\<rparr>, \<lparr>Ebs = Some \<lparr>ebs_SnapshotId = Some ''snap-1''\<rparr>\<rparr>]\<rparr>]\<rparr>], None)"
  by (simp add: ex_client_no_ebs_def)

lemma ex_no_ebs_list_ami: "list_ami ex_client_no_ebs = Inr {'''', ''snap-1''}"
  by (auto simp: list_ami_def ex_client_no_ebs_def dict_get_def)

lemma ex_no_ebs_list_snapshot: "list_snapshot ex_client_no_ebs = Inr {'''', ''snap-1'', ''snap-2''}"
  by (auto simp: list_snapshot_def ex_client_no_ebs_def ex_snapshot_def dict_get_def)

lemma list_snapshot_single:
  "list_snapshot (ec2\<lparr>describe_snapshots := \<lambda>owners. ([\<lparr>Snapshots = Some [s]\<rparr>], None)\<rparr>) =
     Inr (if str_contains ''Created by CreateImage'' (dict_get (snap_Description s) '''')
          then {dict_get (snap_SnapshotId s) ''''} else {})"
  by (simp add: list_snapshot_def Let_def)

text \<open>
  C2. A snapshot id is in the result of \<open>list_snapshot\<close> exactly when some record of
  some page has a description that contains \<open>Created by CreateImage\<close> and carries that
  id. For a listing of one record: the result is the record's id when its description
  contains the marker, and empty otherwise. The description of an image-made snapshot
  is accepted, \<open>manual backup\<close> is not.
\<close>

theorem list_snapshot_classifies:
  "(\<forall>S x. list_snapshot ec2 = Inr S \<longrightarrow>
      (x \<in> S \<longleftrightarrow>
        (\<exists>page records r. page \<in> set (fst (describe_snapshots ec2 [ACCOUNT_ID]))
           \<and> Snapshots page = Some records \<and> r \<in> set records
           \<and> sublist ''Created by CreateImage'' (dict_get (snap_Description r) '''')
           \<and> x = dict_get (snap_SnapshotId r) '''')))
   \<and> list_snapshot (ec2\<lparr>describe_snapshots := \<lambda>owners. ([\<lparr>Snapshots = Some [s]\<rparr>], None)\<rparr>) =
       Inr (if sublist ''Created by CreateImage'' (dict_get (snap_Description s) '''')
            then {dict_get (snap_SnapshotId s) ''''} else {})
   \<and> list_snapshot (ec2\<lparr>describe_snapshots := \<lambda>owners. ([\<lparr>Snapshots = Some
         [\<lparr>snap_Description = Some ''Created by CreateImage(i-0123...) for ami-0123... from vol-0123...'',
           snap_SnapshotId = Some sid\<rparr>]\<rparr>], None)\<rparr>) = Inr {sid}
   \<and> list_snapshot (ec2\<lparr>describe_snapshots := \<lambda>owners. ([\<lparr>Snapshots = Some
         [\<lparr>snap_Description = Some ''manual backup'', snap_SnapshotId = Some sid\<rparr>]\<rparr>], None)\<rparr>)
       = Inr {}"
proof (intro conjI allI impI)
  fix S x assume "list_snapshot ec2 = Inr S"
  from list_snapshot_members [OF this, of x]
  show "x \<in> S \<longleftrightarrow>
        (\<exists>page records r. page \<in> set (fst (describe_snapshots ec2 [ACCOUNT_ID]))
           \<and> Snapshots page = Some records \<and> r \<in> set records
           \<and> sublist ''Created by CreateImage'' (dict_get (snap_Description r) '''')
           \<and> x = dict_get (snap_SnapshotId r) '''')"
    by (simp only: str_contains_sublist)
next
  show "list_snapshot (ec2\<lparr>describe_snapshots := \<lambda>owners. ([\<lparr>Snapshots = Some [s]\<rparr>], None)\<rparr>) =
       Inr (if sublist ''Created by CreateImage'' (dict_get (snap_Description s) '''')
            then {dict_get (snap_SnapshotId s) ''''} else {})"
    by (simp only: list_snapshot_single str_contains_sublist)
next
  show "list_snapshot (ec2\<lparr>describe_snapshots := \<lambda>owners. ([\<lparr>Snapshots = Some
         [\<lparr>snap_Description = Some ''Created by CreateImage(i-0123...) for ami-0123... from vol-0123...'',
           snap_SnapshotId = Some sid\<rparr>]\<rparr>], None)\<rparr>) = Inr {sid}"
    by (simp add: list_snapshot_single dict_get_def)
next
  show "list_snapshot (ec2\<lparr>describe_snapshots := \<lambda>owners. ([\<lparr>Snapshots = Some
         [\<lparr>snap_Description = Some ''manual backup'', snap_SnapshotId = Some sid\<rparr>]\<rparr>], None)\<rparr>)
       = Inr {}"
    by (simp add: list_snapshot_single dict_get_def)
qed

theorem list_snapshot_classifies_witness:
  "list_snapshot (ex_client None) = Inr {''snap-1'', ''snap-2'', ''snap-3''}
   \<and> ''snap-2'' \<in> {''snap-1'', ''snap-2'', ''snap-3''}
   \<and> (\<exists>page records r. page \<in> set (fst (describe_snapshots (ex_client None) [ACCOUNT_ID]))
           \<and> Snapshots page = Some records \<and> r \<in> set records
           \<and> sublist ''Created by CreateImage'' (dict_get (snap_Description r) '''')
           \<and> ''snap-2'' = dict_get (snap_SnapshotId r) '''')"
proof -
  have mem: "''snap-2'' \<in> {''snap-1'', ''snap-2'', ''snap-3''}"
    by simp
  from list_snapshot_classifies [of "ex_client None"]
  have "\<forall>S x. list_snapshot (ex_client None) = Inr S \<longrightarrow>
      (x \<in> S \<longleftrightarrow>
        (\<exists>page records r. page \<in> set (fst (describe_snapshots (ex_client None) [ACCOUNT_ID]))
           \<and> Snapshots page = Some records \<and> r \<in> set records
           \<and> sublist ''Created by CreateImage'' (dict_get (snap_Description r) '''')
           \<and> x = dict_get (snap_SnapshotId r) ''''))"
    by (rule conjunct1)
  with ex_list_snapshot [of None] mem
  have "\<exists>page records r. page \<in> set (fst (describe_snapshots (ex_client None) [ACCOUNT_ID]))
           \<and> Snapshots page = Some records \<and> r \<in> set records
           \<and> sublist ''Created by CreateImage'' (dict_get (snap_Description r) '''')
           \<and> ''snap-2'' = dict_get (snap_SnapshotId r) ''''"
    by blast
  with mem show ?thesis
    by (simp only: ex_list_snapshot simp_thms)
qed

text \<open>
  C3, as stated, fails: an image mapping without an \<open>Ebs\<close> entry puts the empty string
  into the referenced set.
\<close>

theorem list_ami_no_ebs_counterexample:
  "describe_images ex_client_no_ebs [ACCOUNT_ID] =
     ([\<lparr>Images = Some [\<lparr>BlockDeviceMappings = Some
            [\<lparr>Ebs = None\<rparr>, \<lparr>Ebs = Some \<lparr>ebs_SnapshotId = Some ''snap-1''\<rparr>\<rparr>]\<rparr>]\<rparr>], None)
   \<and> list_ami ex_client_no_ebs = Inr {'''', ''snap-1''}
   \<and> list_ami ex_client_no_ebs \<noteq> Inr {''snap-1''}"
proof -
  have "'''' \<in> {'''', ''snap-1''}" by simp
  moreover have "'''' \<notin> {''snap-1''}" by simp
  ultimately have "{'''', ''snap-1''} \<noteq> {''snap-1''}" by metis
  then show ?thesis
    by (simp only: ex_no_ebs_pages ex_no_ebs_list_ami sum.inject simp_thms not_False_eq_True)
qed

text \<open>
  C3, amended. A block-device mapping without an EBS snapshot id (no \<open>Ebs\<close> entry, or
  an \<open>Ebs\<close> entry without \<open>SnapshotId\<close>) contributes the empty string to the referenced
  set, and nothing else: every non-empty member of the set is the snapshot id of the
  \<open>Ebs\<close> entry of some mapping.
\<close>

theorem list_ami_mapping_without_snapshot:
  assumes "list_ami ec2 = Inr B"
    and "page \<in> set (fst (describe_images ec2 [ACCOUNT_ID]))"
    and "Images page = Some amis" and "ami \<in> set amis"
    and "block \<in> set (dict_get (BlockDeviceMappings ami) [])"
    and "Ebs block = None \<or> (\<exists>e. Ebs block = Some e \<and> ebs_SnapshotId e = None)"
  shows "'''' \<in> B
     \<and> (\<forall>x \<in> B. x \<noteq> '''' \<longrightarrow>
          (\<exists>page' amis' ami' block' e. page' \<in> set (fst (describe_images ec2 [ACCOUNT_ID]))
             \<and> Images page' = Some amis' \<and> ami' \<in> set amis'
             \<and> block' \<in> set (dict_get (BlockDeviceMappings ami') [])
             \<and> Ebs block' = Some e \<and> ebs_SnapshotId e = Some x))"
proof (intro conjI ballI impI)
  from no_snapshot_id_default [OF assms(6)] assms(2-5)
  have "\<exists>page amis ami block. page \<in> set (fst (describe_images ec2 [ACCOUNT_ID]))
        \<and> Images page = Some amis \<and> ami \<in> set amis
        \<and> block \<in> set (dict_get (BlockDeviceMappings ami) [])
        \<and> '''' = dict_get (ebs_SnapshotId (dict_get (Ebs block) \<lparr>ebs_SnapshotId = None\<rparr>)) ''''"
    by metis
  then show "'''' \<in> B"
    by (simp only: list_ami_members [OF assms(1)])
next
  fix x assume "x \<in> B" and nonempty: "x \<noteq> ''''"
  then obtain page' amis' ami' block' where found:
      "page' \<in> set (fst (describe_images ec2 [ACCOUNT_ID]))"
      "Images page' = Some amis'" "ami' \<in> set amis'"
      "block' \<in> set (dict_get (BlockDeviceMappings ami') [])"
    and x: "x = dict_get (ebs_SnapshotId (dict_get (Ebs block') \<lparr>ebs_SnapshotId = None\<rparr>)) ''''"
    unfolding list_ami_members [OF assms(1)] by blast
  from snapshot_id_nonempty [OF x [symmetric] nonempty]
  obtain e where "Ebs block' = Some e" "ebs_SnapshotId e = Some x"
    by blast
  with found show "\<exists>page' amis' ami' block' e.
             page' \<in> set (fst (describe_images ec2 [ACCOUNT_ID]))
             \<and> Images page' = Some amis' \<and> ami' \<in> set amis'
             \<and> block' \<in> set (dict_get (BlockDeviceMappings ami') [])
             \<and> Ebs block' = Some e \<and> ebs_SnapshotId e = Some x"
    by blast
qed

theorem list_ami_mapping_without_snapshot_witness:
  "list_ami ex_client_no_ebs = Inr {'''', ''snap-1''}
   \<and> \<lparr>Images = Some [\<lparr>BlockDeviceMappings = Some
            [\<lparr>Ebs = None\<rparr>, \<lparr>Ebs = Some \<lparr>ebs_SnapshotId = Some ''snap-1''\<rparr>\<rparr>]\<rparr>]\<rparr>
       \<in> set (fst (describe_images ex_client_no_ebs [ACCOUNT_ID]))
   \<and> \<lparr>Ebs = None\<rparr> \<in> set (dict_get (BlockDeviceMappings
         \<lparr>BlockDeviceMappings = Some
            [\<lparr>Ebs = None\<rparr>, \<lparr>Ebs = Some \<lparr>ebs_SnapshotId = Some ''snap-1''\<rparr>\<rparr>]\<rparr>) [])
   \<and> Ebs \<lparr>Ebs = None\<rparr> = None
   \<and> '''' \<in> {'''', ''snap-1''}
   \<and> ''snap-1'' \<in> {'''', ''snap-1''} \<and> ''snap-1'' \<noteq> ''''
   \<and> (\<exists>page' amis' ami' block' e.
          page' \<in> set (fst (describe_images ex_client_no_ebs [ACCOUNT_ID]))
          \<and> Images page' = Some amis' \<and> ami' \<in> set amis'
          \<and> block' \<in> set (dict_get (BlockDeviceMappings ami') [])
          \<and> Ebs block' = Some e \<and> ebs_SnapshotId e = Some ''snap-1'')"
proof -
  let ?ami = "\<lparr>BlockDeviceMappings = Some
            [\<lparr>Ebs = None\<rparr>, \<lparr>Ebs = Some \<lparr>ebs_SnapshotId = Some ''snap-1''\<rparr>\<rparr>]\<rparr>"
  let ?page = "\<lparr>Images = Some [?ami]\<rparr>"
  let ?block = "\<lparr>Ebs = None\<rparr>"
  have page: "?page \<in> set (fst (describe_images ex_client_no_ebs [ACCOUNT_ID]))"
    by (simp add: ex_no_ebs_pages)
  have amis: "Images ?page = Some [?ami]" by simp
  have ami: "?ami \<in> set [?ami]" by simp
  have block: "?block \<in> set (dict_get (BlockDeviceMappings ?ami) [])"
    by (simp add: dict_get_def)
  have none: "Ebs ?block = None" by simp
  then have lacking: "Ebs ?block = None \<or> (\<exists>e. Ebs ?block = Some e \<and> ebs_SnapshotId e = None)"
    by (rule disjI1)
  note inst = list_ami_mapping_without_snapshot
    [OF ex_no_ebs_list_ami page amis ami block lacking]
  from inst have empty: "'''' \<in> {'''', ''snap-1''}"
    by (rule conjunct1)
  have mem: "''snap-1'' \<in> {'''', ''snap-1''}" and ne: "''snap-1'' \<noteq> ''''"
    by simp_all
  from inst have "\<forall>x \<in> {'''', ''snap-1''}. x \<noteq> '''' \<longrightarrow>
          (\<exists>page' amis' ami' block' e.
             page' \<in> set (fst (describe_images ex_client_no_ebs [ACCOUNT_ID]))
             \<and> Images page' = Some amis' \<and> ami' \<in> set amis'
             \<and> block' \<in> set (dict_get (BlockDeviceMappings ami') [])
             \<and> Ebs block' = Some e \<and> ebs_SnapshotId e = Some x)"
    by (rule conjunct2)
  with mem ne have found: "\<exists>page' amis' ami' block' e.
          page' \<in> set (fst (describe_images ex_client_no_ebs [ACCOUNT_ID]))
          \<and> Images page' = Some amis' \<and> ami' \<in> set amis'
          \<and> block' \<in> set (dict_get (BlockDeviceMappings ami') [])
          \<and> Ebs block' = Some e \<and> ebs_SnapshotId e = Some ''snap-1''"
    by blast
  from ex_no_ebs_list_ami page block none empty mem ne found show ?thesis
    by (intro conjI)
qed

lemma ex_no_ebs_diff: "{'''', ''snap-1'', ''snap-2''} - {'''', ''snap-1''} = {''snap-2''}"
  by auto

lemma ex_no_ebs_order:
  "set (set_order ex_runtime ({'''', ''snap-1'', ''snap-2''} - {'''', ''snap-1''})) =
     {'''', ''snap-1'', ''snap-2''} - {'''', ''snap-1''}"
  by (simp add: ex_no_ebs_diff ex_runtime_def)

lemma ex_no_ebs_main:
  "main ex_runtime ex_client_no_ebs ex_world =
     (Inr {''snap-2''},
      \<lparr>events = [CreateTags [''snap-2''] [(''NotAttachedAMI'', ''True'')], FileOpen,
                 FileWrite (''snap-2'' @ [newline]), FileClose],
       export_file = Some (''snap-2'' @ [newline]), open_handles = 0\<rparr>)"
  apply (simp only: main_def main_try_def ex_no_ebs_list_snapshot ex_no_ebs_list_ami sum.case
      Let_def ex_no_ebs_diff)
  apply (simp add: grant_tag_def export_text_def ex_runtime_def ex_client_no_ebs_def ex_world_def
      dict_get_def Let_def)
  done

text \<open>
  C10. When some image has a block-device mapping without an EBS snapshot id, the
  empty string is in the referenced set. A snapshot record with the marker in its
  description and no id puts the empty string into the image-derived set, but the
  empty string is not in the difference: \<open>main\<close> never returns it, no tagging call of
  the run names it, and no empty line is written to the export.
\<close>

theorem main_masks_empty_id:
  assumes "list_snapshot ec2 = Inr A" and "list_ami ec2 = Inr B"
    and "page \<in> set (fst (describe_images ec2 [ACCOUNT_ID]))"
    and "Images page = Some amis" and "ami \<in> set amis"
    and "block \<in> set (dict_get (BlockDeviceMappings ami) [])"
    and "Ebs block = None \<or> (\<exists>e. Ebs block = Some e \<and> ebs_SnapshotId e = None)"
    and "set (set_order rt (A - B)) = A - B"
  shows "'''' \<in> B
     \<and> ((\<exists>spage records r. spage \<in> set (fst (describe_snapshots ec2 [ACCOUNT_ID]))
            \<and> Snapshots spage = Some records \<and> r \<in> set records
            \<and> str_contains ''Created by CreateImage'' (dict_get (snap_Description r) '''')
            \<and> snap_SnapshotId r = None) \<longrightarrow> '''' \<in> A)
     \<and> '''' \<notin> A - B
     \<and> (\<forall>R. fst (main rt ec2 w) = Inr R \<longrightarrow> '''' \<notin> R)
     \<and> (\<exists>new. events (snd (main rt ec2 w)) = events w @ new
          \<and> (\<forall>ids tags. CreateTags ids tags \<in> set new \<longrightarrow> '''' \<notin> set ids)
          \<and> FileWrite ('''' @ [newline]) \<notin> set new)"
proof (intro conjI allI impI)
  show in_B: "'''' \<in> B"
    using assms(2-7) by (rule list_ami_has_empty_string)
  then show masked: "'''' \<notin> A - B" by simp
  show "'''' \<in> A"
    if "\<exists>spage records r. spage \<in> set (fst (describe_snapshots ec2 [ACCOUNT_ID]))
            \<and> Snapshots spage = Some records \<and> r \<in> set records
            \<and> str_contains ''Created by CreateImage'' (dict_get (snap_Description r) '''')
            \<and> snap_SnapshotId r = None"
  proof -
    from that obtain spage records r where
      "spage \<in> set (fst (describe_snapshots ec2 [ACCOUNT_ID]))"
      "Snapshots spage = Some records" "r \<in> set records"
      "str_contains ''Created by CreateImage'' (dict_get (snap_Description r) '''')"
      and "snap_SnapshotId r = None"
      by blast
    moreover from this(5) have "'''' = dict_get (snap_SnapshotId r) ''''"
      by (simp add: dict_get_def)
    ultimately show ?thesis
      unfolding list_snapshot_members [OF assms(1)] by blast
  qed
  show "'''' \<notin> R" if "fst (main rt ec2 w) = Inr R" for R
    using main_returned_value [OF assms(1,2) that] masked by simp
  from main_new_events [OF assms(1,2,8), of w] obtain new where
    ev: "events (snd (main rt ec2 w)) = events w @ new"
    and tags: "\<forall>ids tags. CreateTags ids tags \<in> set new \<longrightarrow> set ids = A - B"
    and writes: "\<forall>line. FileWrite line \<in> set new \<longrightarrow> line \<in> (\<lambda>i. i @ [newline]) ` (A - B)"
    by blast
  have no_tag: "'''' \<notin> set ids" if "CreateTags ids tags \<in> set new" for ids tags
    using tags that masked by blast
  have no_line: "FileWrite ('''' @ [newline]) \<notin> set new"
  proof
    assume "FileWrite ('''' @ [newline]) \<in> set new"
    with writes have "'''' @ [newline] \<in> (\<lambda>i. i @ [newline]) ` (A - B)"
      by blast
    then obtain i where "i \<in> A - B" "'''' @ [newline] = i @ [newline]"
      by blast
    then have "'''' \<in> A - B" by simp
    with masked show False by contradiction
  qed
  from ev no_tag no_line
  show "\<exists>new. events (snd (main rt ec2 w)) = events w @ new
          \<and> (\<forall>ids tags. CreateTags ids tags \<in> set new \<longrightarrow> '''' \<notin> set ids)
          \<and> FileWrite ('''' @ [newline]) \<notin> set new"
    by blast
qed

theorem main_masks_empty_id_witness:
  "list_snapshot ex_client_no_ebs = Inr {'''', ''snap-1'', ''snap-2''}
   \<and> list_ami ex_client_no_ebs = Inr {'''', ''snap-1''}
   \<and> \<lparr>Ebs = None\<rparr> \<in> set (dict_get (BlockDeviceMappings
         \<lparr>BlockDeviceMappings = Some
            [\<lparr>Ebs = None\<rparr>, \<lparr>Ebs = Some \<lparr>ebs_SnapshotId = Some ''snap-1''\<rparr>\<rparr>]\<rparr>) [])
   \<and> set (set_order ex_runtime ({'''', ''snap-1'', ''snap-2''} - {'''', ''snap-1''})) =
         {'''', ''snap-1'', ''snap-2''} - {'''', ''snap-1''}
   \<and> '''' \<in> {'''', ''snap-1''}
   \<and> '''' \<in> {'''', ''snap-1'', ''snap-2''}
   \<and> fst (main ex_runtime ex_client_no_ebs ex_world) = Inr {''snap-2''}
   \<and> '''' \<notin> {''snap-2''}
   \<and> CreateTags [''snap-2''] [(''NotAttachedAMI'', ''True'')]
         \<in> set (events (snd (main ex_runtime ex_client_no_ebs ex_world)))
   \<and> '''' \<notin> set [''snap-2'']"
proof -
  let ?ami = "\<lparr>BlockDeviceMappings = Some
            [\<lparr>Ebs = None\<rparr>, \<lparr>Ebs = Some \<lparr>ebs_SnapshotId = Some ''snap-1''\<rparr>\<rparr>]\<rparr>"
  let ?page = "\<lparr>Images = Some [?ami]\<rparr>"
  let ?block = "\<lparr>Ebs = None\<rparr>"
  have page: "?page \<in> set (fst (describe_images ex_client_no_ebs [ACCOUNT_ID]))"
    by (simp add: ex_no_ebs_pages)
  have amis: "Images ?page = Some [?ami]" by simp
  have ami: "?ami \<in> set [?ami]" by simp
  have block: "?block \<in> set (dict_get (BlockDeviceMappings ?ami) [])"
    by (simp add: dict_get_def)
  have lacking: "Ebs ?block = None \<or> (\<exists>e. Ebs ?block = Some e \<and> ebs_SnapshotId e = None)"
    by simp
  note inst = main_masks_empty_id [where w = ex_world,
      OF ex_no_ebs_list_snapshot ex_no_ebs_list_ami page amis ami block lacking ex_no_ebs_order]
  from inst have in_B: "'''' \<in> {'''', ''snap-1''}"
    by (rule conjunct1)
  have present: "\<exists>spage records r.
      spage \<in> set (fst (describe_snapshots ex_client_no_ebs [ACCOUNT_ID]))
      \<and> Snapshots spage = Some records \<and> r \<in> set records
      \<and> str_contains ''Created by CreateImage'' (dict_get (snap_Description r) '''')
      \<and> snap_SnapshotId r = None"
    by (intro exI [of _ "\<lparr>Snapshots = Some [\<lparr>snap_Description = Some ''Created by CreateImage'',
              snap_SnapshotId = None\<rparr>, ex_snapshot ''snap-1'', ex_snapshot ''snap-2'']\<rparr>"]
          exI [of _ "[\<lparr>snap_Description = Some ''Created by CreateImage'',
              snap_SnapshotId = None\<rparr>, ex_snapshot ''snap-1'', ex_snapshot ''snap-2'']"]
          exI [of _ "\<lparr>snap_Description = Some ''Created by CreateImage'',
              snap_SnapshotId = None\<rparr>"])
       (simp add: ex_client_no_ebs_def dict_get_def)
  from inst have "(\<exists>spage records r.
      spage \<in> set (fst (describe_snapshots ex_client_no_ebs [ACCOUNT_ID]))
      \<and> Snapshots spage = Some records \<and> r \<in> set records
      \<and> str_contains ''Created by CreateImage'' (dict_get (snap_Description r) '''')
      \<and> snap_SnapshotId r = None) \<longrightarrow> '''' \<in> {'''', ''snap-1'', ''snap-2''}"
    by (rule conjunct1 [OF conjunct2])
  with present have in_A: "'''' \<in> {'''', ''snap-1'', ''snap-2''}"
    by (rule rev_mp)
  have ret: "fst (main ex_runtime ex_client_no_ebs ex_world) = Inr {''snap-2''}"
    by (simp add: ex_no_ebs_main)
  from inst have "\<forall>R. fst (main ex_runtime ex_client_no_ebs ex_world) = Inr R \<longrightarrow> '''' \<notin> R"
    by (rule conjunct1 [OF conjunct2 [OF conjunct2 [OF conjunct2]]])
  with ret have not_ret: "'''' \<notin> {''snap-2''}"
    by blast
  from inst obtain new where
    ev: "events (snd (main ex_runtime ex_client_no_ebs ex_world)) = events ex_world @ new"
    and tags: "\<forall>ids tags. CreateTags ids tags \<in> set new \<longrightarrow> '''' \<notin> set ids"
    by blast
  have tagged: "CreateTags [''snap-2''] [(''NotAttachedAMI'', ''True'')]
         \<in> set (events (snd (main ex_runtime ex_client_no_ebs ex_world)))"
    by (simp add: ex_no_ebs_main)
  with ev have "CreateTags [''snap-2''] [(''NotAttachedAMI'', ''True'')] \<in> set new"
    by (simp add: ex_world_def)
  with tags have not_tagged: "'''' \<notin> set [''snap-2'']"
    by blast
  from ex_no_ebs_list_snapshot ex_no_ebs_list_ami block ex_no_ebs_order in_B in_A ret not_ret
    tagged not_tagged
  show ?thesis
    by (intro conjI)
qed

text \<open>
  C7. Let the pages of a listing be permuted, and the records within each page as
  well: the pages, read as multisets of records, are the same multiset. Then both
  collectors give the same result, be it the set of ids or the exception.
\<close>

theorem collectors_ignore_page_order:
  assumes "mset (map (map_option mset \<circ> Snapshots) spages') =
           mset (map (map_option mset \<circ> Snapshots) spages)"
    and "mset (map (map_option mset \<circ> Images) ipages') =
         mset (map (map_option mset \<circ> Images) ipages)"
  shows "list_snapshot (ec2\<lparr>describe_snapshots := \<lambda>owners. (spages', sraised)\<rparr>) =
         list_snapshot (ec2\<lparr>describe_snapshots := \<lambda>owners. (spages, sraised)\<rparr>)
     \<and> list_ami (ec2\<lparr>describe_images := \<lambda>owners. (ipages', iraised)\<rparr>) =
       list_ami (ec2\<lparr>describe_images := \<lambda>owners. (ipages, iraised)\<rparr>)"
  using list_snapshot_page_contents [OF assms(1)] list_ami_page_contents [OF assms(2)]
  by (intro conjI)

theorem collectors_ignore_page_order_witness:
  "mset (map (map_option mset \<circ> Snapshots)
       [\<lparr>Snapshots = Some [ex_snapshot ''snap-3'']\<rparr>,
        \<lparr>Snapshots = Some [ex_snapshot ''snap-2'', ex_snapshot ''snap-1'']\<rparr>]) =
   mset (map (map_option mset \<circ> Snapshots)
       [\<lparr>Snapshots = Some [ex_snapshot ''snap-1'', ex_snapshot ''snap-2'']\<rparr>,
        \<lparr>Snapshots = Some [ex_snapshot ''snap-3'']\<rparr>])
   \<and> mset (map (map_option mset \<circ> Images)
       [\<lparr>Images = Some [ex_image ''snap-3'', ex_image ''snap-1'']\<rparr>]) =
     mset (map (map_option mset \<circ> Images)
       [\<lparr>Images = Some [ex_image ''snap-1'', ex_image ''snap-3'']\<rparr>])
   \<and> list_snapshot ((ex_client None)\<lparr>describe_snapshots := \<lambda>owners.
         ([\<lparr>Snapshots = Some [ex_snapshot ''snap-3'']\<rparr>,
           \<lparr>Snapshots = Some [ex_snapshot ''snap-2'', ex_snapshot ''snap-1'']\<rparr>], None)\<rparr>)
       = Inr {''snap-1'', ''snap-2'', ''snap-3''}
   \<and> list_ami ((ex_client None)\<lparr>describe_images := \<lambda>owners.
         ([\<lparr>Images = Some [ex_image ''snap-3'', ex_image ''snap-1'']\<rparr>], None)\<rparr>)
       = Inr {''snap-1'', ''snap-3''}"
proof -
  have s: "mset (map (map_option mset \<circ> Snapshots)
       [\<lparr>Snapshots = Some [ex_snapshot ''snap-3'']\<rparr>,
        \<lparr>Snapshots = Some [ex_snapshot ''snap-2'', ex_snapshot ''snap-1'']\<rparr>]) =
   mset (map (map_option mset \<circ> Snapshots)
       [\<lparr>Snapshots = Some [ex_snapshot ''snap-1'', ex_snapshot ''snap-2'']\<rparr>,
        \<lparr>Snapshots = Some [ex_snapshot ''snap-3'']\<rparr>])"
    by (simp add: add_mset_commute)
  have i: "mset (map (map_option mset \<circ> Images)
       [\<lparr>Images = Some [ex_image ''snap-3'', ex_image ''snap-1'']\<rparr>]) =
     mset (map (map_option mset \<circ> Images)
       [\<lparr>Images = Some [ex_image ''snap-1'', ex_image ''snap-3'']\<rparr>])"
    by (simp add: add_mset_commute)
  have same_s: "(ex_client None)\<lparr>describe_snapshots := \<lambda>owners.
         ([\<lparr>Snapshots = Some [ex_snapshot ''snap-1'', ex_snapshot ''snap-2'']\<rparr>,
           \<lparr>Snapshots = Some [ex_snapshot ''snap-3'']\<rparr>], None)\<rparr> = ex_client None"
    by (simp add: ex_client_def)
  have same_i: "(ex_client None)\<lparr>describe_images := \<lambda>owners.
         ([\<lparr>Images = Some [ex_image ''snap-1'', ex_image ''snap-3'']\<rparr>], None)\<rparr> = ex_client None"
    by (simp add: ex_client_def)
  have inst: "list_snapshot ((ex_client None)\<lparr>describe_snapshots := \<lambda>owners.
         ([\<lparr>Snapshots = Some [ex_snapshot ''snap-3'']\<rparr>,
           \<lparr>Snapshots = Some [ex_snapshot ''snap-2'', ex_snapshot ''snap-1'']\<rparr>], None)\<rparr>) =
      list_snapshot ((ex_client None)\<lparr>describe_snapshots := \<lambda>owners.
         ([\<lparr>Snapshots = Some [ex_snapshot ''snap-1'', ex_snapshot ''snap-2'']\<rparr>,
           \<lparr>Snapshots = Some [ex_snapshot ''snap-3'']\<rparr>], None)\<rparr>)
    \<and> list_ami ((ex_client None)\<lparr>describe_images := \<lambda>owners.
         ([\<lparr>Images = Some [ex_image ''snap-3'', ex_image ''snap-1'']\<rparr>], None)\<rparr>) =
      list_ami ((ex_client None)\<lparr>describe_images := \<lambda>owners.
         ([\<lparr>Images = Some [ex_image ''snap-1'', ex_image ''snap-3'']\<rparr>], None)\<rparr>)"
    by (rule collectors_ignore_page_order [OF s i])
  from inst have "list_snapshot ((ex_client None)\<lparr>describe_snapshots := \<lambda>owners.
         ([\<lparr>Snapshots = Some [ex_snapshot ''snap-3'']\<rparr>,
           \<lparr>Snapshots = Some [ex_snapshot ''snap-2'', ex_snapshot ''snap-1'']\<rparr>], None)\<rparr>)
       = list_snapshot (ex_client None)"
    by (simp only: same_s)
  then have one: "list_snapshot ((ex_client None)\<lparr>describe_snapshots := \<lambda>owners.
         ([\<lparr>Snapshots = Some [ex_snapshot ''snap-3'']\<rparr>,
           \<lparr>Snapshots = Some [ex_snapshot ''snap-2'', ex_snapshot ''snap-1'']\<rparr>], None)\<rparr>)
       = Inr {''snap-1'', ''snap-2'', ''snap-3''}"
    by (simp only: ex_list_snapshot)
  from inst have "list_ami ((ex_client None)\<lparr>describe_images := \<lambda>owners.
         ([\<lparr>Images = Some [ex_image ''snap-3'', ex_image ''snap-1'']\<rparr>], None)\<rparr>)
       = list_ami (ex_client None)"
    by (simp only: same_i)
  then have two: "list_ami ((ex_client None)\<lparr>describe_images := \<lambda>owners.
         ([\<lparr>Images = Some [ex_image ''snap-3'', ex_image ''snap-1'']\<rparr>], None)\<rparr>)
       = Inr {''snap-1'', ''snap-3''}"
    by (simp only: ex_list_ami)
  from s i one two show ?thesis
    by (intro conjI)
qed

section \<open>Claims about the export\<close>







end
